theory Spec2Isabelle
  imports Complex_Main
begin

section \<open>JavaScript values\<close>

text \<open>
  The request handlers of the user API exchange JavaScript values: strings, numbers,
  objects read from a JSON body, the decoded credential, rows returned by the store.
  A string is a list of code units; the model covers code units below 256. A finite
  number is its exact rational value; \<open>JDate\<close> is a \<^verbatim>\<open>Date\<close> in milliseconds. An object
  is the list of its own properties.
\<close>

datatype jsval =
    JUndefined
  | JNull
  | JBool bool
  | JNum rat
  | JStr string
  | JDate int
  | JArr "jsval list"
  | JObj "(string \<times> jsval) list"

text \<open>\<^verbatim>\<open>obj[key]\<close>: reading a property that is not there gives \<^verbatim>\<open>undefined\<close>.\<close>

fun get_prop :: "jsval \<Rightarrow> string \<Rightarrow> jsval" where
  "get_prop (JObj kvs) k = (case map_of kvs k of None \<Rightarrow> JUndefined | Some v \<Rightarrow> v)"
| "get_prop _ k = JUndefined"

text \<open>\<^verbatim>\<open>Object.keys(obj)\<close>.\<close>

fun keys_of :: "jsval \<Rightarrow> string list" where
  "keys_of (JObj kvs) = map fst kvs"
| "keys_of _ = []"

text \<open>\<^verbatim>\<open>!s\<close> on a string or \<^verbatim>\<open>undefined\<close>: only \<^verbatim>\<open>undefined\<close> and the empty string are falsy.\<close>

fun falsy_str :: "string option \<Rightarrow> bool" where
  "falsy_str None = True"
| "falsy_str (Some s) = (s = [])"

subsection \<open>Strings\<close>

definition code :: "char \<Rightarrow> nat" where
  "code c = of_char c"

definition is_digit :: "char \<Rightarrow> bool" where
  "is_digit c = (48 \<le> code c \<and> code c \<le> 57)"

definition is_upper :: "char \<Rightarrow> bool" where
  "is_upper c = (65 \<le> code c \<and> code c \<le> 90)"

definition is_lower :: "char \<Rightarrow> bool" where
  "is_lower c = (97 \<le> code c \<and> code c \<le> 122)"

definition is_alpha :: "char \<Rightarrow> bool" where
  "is_alpha c = (is_upper c \<or> is_lower c)"

definition is_alnum :: "char \<Rightarrow> bool" where
  "is_alnum c = (is_alpha c \<or> is_digit c)"

text \<open>
  White space and line terminators of ECMAScript below code 256: TAB, LF, VT, FF, CR,
  SP and NBSP. \<^verbatim>\<open>String.prototype.trim\<close> removes them at both ends.
\<close>

definition is_ws :: "char \<Rightarrow> bool" where
  "is_ws c = (code c \<in> {9, 10, 11, 12, 13, 32, 160})"

definition trim :: "string \<Rightarrow> string" where
  "trim s = rev (dropWhile is_ws (rev (dropWhile is_ws s)))"

text \<open>
  \<^verbatim>\<open>String.prototype.toLowerCase\<close> below code 256: the ASCII capitals and the Latin-1
  capitals 0xC0..0xDE (0xD7, the multiplication sign, apart) move up by 32.
\<close>

definition lower_char :: "char \<Rightarrow> char" where
  "lower_char c =
     (if is_upper c \<or> (192 \<le> code c \<and> code c \<le> 222 \<and> code c \<noteq> 215)
      then char_of (code c + 32) else c)"

definition toLowerCase :: "string \<Rightarrow> string" where
  "toLowerCase s = map lower_char s"

text \<open>\<^verbatim>\<open>s.split(c)\<close> for a one-character separator.\<close>

fun split_on :: "char \<Rightarrow> string \<Rightarrow> string list" where
  "split_on c [] = [[]]"
| "split_on c (x # xs) =
     (if x = c then [] # split_on c xs
      else (case split_on c xs of [] \<Rightarrow> [[x]] | p # ps \<Rightarrow> (x # p) # ps))"

text \<open>\<^verbatim>\<open>parts.join(sep)\<close>.\<close>

fun join :: "string \<Rightarrow> string list \<Rightarrow> string" where
  "join sep [] = []"
| "join sep [x] = x"
| "join sep (x # y # ys) = x @ sep @ join sep (y # ys)"

section \<open>The zod schemas of \<^verbatim>\<open>users.validation.js\<close>\<close>

text \<open>
  A zod issue carries the path of the value it is about and a message. The text of the
  library's own messages depends on the release of zod, so it is a parameter
  (\<open>zod_message\<close>); the two messages the repository writes itself are literals below.
\<close>

record issue =
  path :: "string list"
  message :: string

datatype zod_issue_kind =
    InvalidType string
  | NotInteger
  | TooSmall nat
  | TooBig nat
  | InvalidEmail
  | InvalidEnumValue "string list"

type_synonym zod_messages = "zod_issue_kind \<Rightarrow> string"

text \<open>
  The outcome of parsing one value: \<open>Aborted\<close> when the value has the wrong type (no
  check and no refinement runs after it), \<open>Parsed\<close> with the issues of the checks that
  failed and the value the checks produced.
\<close>

datatype 'a parsed = Aborted "issue list" | Parsed "issue list" 'a

fun issues_of :: "'a parsed \<Rightarrow> issue list" where
  "issues_of (Aborted is) = is"
| "issues_of (Parsed is v) = is"

fun is_aborted :: "'a parsed \<Rightarrow> bool" where
  "is_aborted (Aborted is) = True"
| "is_aborted (Parsed is v) = False"

subsection \<open>The e-mail pattern\<close>

text \<open>
  zod's pattern for \<^verbatim>\<open>.email()\<close>, case-insensitive and anchored at both ends:
  \<^verbatim>\<open>^(?!\.)(?!.*\.\.)([A-Z0-9_'+\-\.]*)[A-Z0-9_+-]@([A-Z0-9][A-Z0-9\-]*\.)+[A-Z]{2,}$\<close>.
  No class of the pattern contains \<^verbatim>\<open>@\<close>, so a match has exactly one; no class of the
  domain contains a dot, so the domain splits at its dots into labels and a last part of
  letters.
\<close>

fun has_dotdot :: "string \<Rightarrow> bool" where
  "has_dotdot (a # b # r) = ((a = CHR ''.'' \<and> b = CHR ''.'') \<or> has_dotdot (b # r))"
| "has_dotdot _ = False"

definition local_char :: "char \<Rightarrow> bool" where
  "local_char c = (is_alnum c \<or> c \<in> {CHR ''_'', CHR 0x27, CHR ''+'', CHR ''-'', CHR ''.''})"

definition local_last :: "char \<Rightarrow> bool" where
  "local_last c = (is_alnum c \<or> c \<in> {CHR ''_'', CHR ''+'', CHR ''-''})"

fun domain_label :: "string \<Rightarrow> bool" where
  "domain_label [] = False"
| "domain_label (c # cs) = (is_alnum c \<and> list_all (\<lambda>x. is_alnum x \<or> x = CHR ''-'') cs)"

definition top_level :: "string \<Rightarrow> bool" where
  "top_level t = (2 \<le> length t \<and> list_all is_alpha t)"

definition domain_ok :: "string \<Rightarrow> bool" where
  "domain_ok d =
     (let ps = split_on CHR ''.'' d
      in 2 \<le> length ps \<and> list_all domain_label (butlast ps) \<and> top_level (last ps))"

definition local_ok :: "string \<Rightarrow> bool" where
  "local_ok l =
     (l \<noteq> [] \<and> hd l \<noteq> CHR ''.'' \<and> list_all local_char (butlast l) \<and> local_last (last l))"

definition emailRegex :: "string \<Rightarrow> bool" where
  "emailRegex s =
     (case split_on CHR ''@'' s of
        [l, d] \<Rightarrow> \<not> has_dotdot s \<and> local_ok l \<and> domain_ok d
      | _ \<Rightarrow> False)"

subsection \<open>String schemas\<close>

text \<open>
  A string schema is the chain of checks in the order the source writes them. zod runs
  the chain in that order on the current value: \<open>Min\<close>, \<open>Max\<close> and \<open>Email\<close> test the
  value and add an issue when the test fails; \<open>Trim\<close> and \<open>ToLowerCase\<close> replace the
  value, for the checks that come after them and for the result.
\<close>

datatype string_check = Min nat | Max nat | Email | ToLowerCase | Trim

fun run_checks :: "zod_messages \<Rightarrow> string_check list \<Rightarrow> string \<Rightarrow> string list \<times> string" where
  "run_checks zm [] s = ([], s)"
| "run_checks zm (Min n # cs) s =
     (let (ms, r) = run_checks zm cs s
      in (if length s < n then zm (TooSmall n) # ms else ms, r))"
| "run_checks zm (Max n # cs) s =
     (let (ms, r) = run_checks zm cs s
      in (if n < length s then zm (TooBig n) # ms else ms, r))"
| "run_checks zm (Email # cs) s =
     (let (ms, r) = run_checks zm cs s
      in (if emailRegex s then ms else zm InvalidEmail # ms, r))"
| "run_checks zm (ToLowerCase # cs) s = run_checks zm cs (toLowerCase s)"
| "run_checks zm (Trim # cs) s = run_checks zm cs (trim s)"

text \<open>
  \<^verbatim>\<open>z.string()...optional()\<close> at key \<open>k\<close>: \<^verbatim>\<open>undefined\<close> is accepted as absent, a
  string goes through the checks, anything else has the wrong type.
\<close>

fun optional_string ::
  "zod_messages \<Rightarrow> string \<Rightarrow> string_check list \<Rightarrow> jsval \<Rightarrow> string option parsed" where
  "optional_string zm k cs JUndefined = Parsed [] None"
| "optional_string zm k cs (JStr s) =
     (let (ms, r) = run_checks zm cs s
      in Parsed (map (\<lambda>m. \<lparr>path = [k], message = m\<rparr>) ms) (Some r))"
| "optional_string zm k cs _ = Aborted [\<lparr>path = [k], message = zm (InvalidType ''string'')\<rparr>]"

text \<open>\<^verbatim>\<open>z.enum(values).optional()\<close> at key \<open>k\<close>.\<close>

fun optional_enum ::
  "zod_messages \<Rightarrow> string \<Rightarrow> string list \<Rightarrow> jsval \<Rightarrow> string option parsed" where
  "optional_enum zm k vs JUndefined = Parsed [] None"
| "optional_enum zm k vs (JStr s) =
     (if s \<in> set vs then Parsed [] (Some s)
      else Aborted [\<lparr>path = [k], message = zm (InvalidEnumValue vs)\<rparr>])"
| "optional_enum zm k vs _ = Aborted [\<lparr>path = [k], message = zm (InvalidEnumValue vs)\<rparr>]"

subsection \<open>updateUserSchema\<close>

text \<open>
  \<^verbatim>\<open>
  export const updateUserSchema = z
    .object({
      name: z.string().min(2).max(255).trim().optional(),
      email: z.string().email().max(255).toLowerCase().trim().optional(),
      role: z.enum(['user', 'admin']).optional(),
    })
    .refine(
      data => Object.values(data).some(value => value !== undefined),
      { message: 'At least one field must be provided for update' }
    );
  \<close>
  The parsed object has the three keys of the shape and no other: keys of the input that
  the shape does not name are not read.
\<close>

record updates =
  u_name :: "string option"
  u_email :: "string option"
  u_role :: "string option"

definition name_checks :: "string_check list" where
  "name_checks = [Min 2, Max 255, Trim]"

definition email_checks :: "string_check list" where
  "email_checks = [Email, Max 255, ToLowerCase, Trim]"

definition role_values :: "string list" where
  "role_values = [''user'', ''admin'']"

fun is_object :: "jsval \<Rightarrow> bool" where
  "is_object (JObj kvs) = True"
| "is_object _ = False"

definition update_object :: "zod_messages \<Rightarrow> jsval \<Rightarrow> updates parsed" where
  "update_object zm data =
     (if \<not> is_object data then Aborted [\<lparr>path = [], message = zm (InvalidType ''object'')\<rparr>]
      else
        let n = optional_string zm ''name'' name_checks (get_prop data ''name'');
            e = optional_string zm ''email'' email_checks (get_prop data ''email'');
            r = optional_enum zm ''role'' role_values (get_prop data ''role'');
            is = issues_of n @ issues_of e @ issues_of r
        in (case (n, e, r) of
              (Parsed _ nv, Parsed _ ev, Parsed _ rv) \<Rightarrow>
                Parsed is \<lparr>u_name = nv, u_email = ev, u_role = rv\<rparr>
            | _ \<Rightarrow> Aborted is))"

text \<open>The refinement: some value of the parsed object is not \<^verbatim>\<open>undefined\<close>.\<close>

definition some_field_provided :: "updates \<Rightarrow> bool" where
  "some_field_provided data =
     list_ex (\<lambda>v. v \<noteq> None) [u_name data, u_email data, u_role data]"

definition at_least_one_message :: string where
  "at_least_one_message = ''At least one field must be provided for update''"

text \<open>
  \<^verbatim>\<open>updateUserSchema.safeParseAsync(body)\<close>: \<open>Inr\<close> the parsed data when there is no issue,
  \<open>Inl\<close> the issues otherwise. The refinement runs unless the object was aborted, and its
  issue has the empty path: it is about the object, not about one of its keys.
\<close>

definition updateUserSchema :: "zod_messages \<Rightarrow> jsval \<Rightarrow> issue list + updates" where
  "updateUserSchema zm body =
     (case update_object zm body of
        Aborted is \<Rightarrow> Inl is
      | Parsed is data \<Rightarrow>
          (let is' = (if some_field_provided data then is
                      else is @ [\<lparr>path = [], message = at_least_one_message\<rparr>])
           in if is' = [] then Inr data else Inl is'))"

subsection \<open>Numbers coerced from strings\<close>

text \<open>
  \<^verbatim>\<open>z.coerce.number()\<close> applies \<^verbatim>\<open>Number(input)\<close>. A route parameter is a string, so the
  coercion is ECMAScript's StringToNumber: white space is trimmed, the empty string is 0,
  a binary, octal or hexadecimal integer literal or a signed decimal literal (with
  \<^verbatim>\<open>Infinity\<close>) gives its value rounded to binary64, anything else is \<^verbatim>\<open>NaN\<close>.
\<close>

datatype jsnum = NaN | PosInf | NegInf | Fin rat

definition pow2 :: "int \<Rightarrow> rat" where
  "pow2 k = (if 0 \<le> k then of_int (2 ^ nat k) else 1 / of_int (2 ^ nat (- k)))"

definition pow10 :: "int \<Rightarrow> rat" where
  "pow10 k = (if 0 \<le> k then of_int (10 ^ nat k) else 1 / of_int (10 ^ nat (- k)))"

text \<open>The number of binary digits of a positive integer.\<close>

function bit_length :: "int \<Rightarrow> nat" where
  "bit_length n = (if n \<le> 0 then 0 else Suc (bit_length (n div 2)))"
  by pat_completeness auto
termination
  by (relation "measure nat") auto

declare bit_length.simps [simp del]

text \<open>The largest \<open>e\<close> with \<open>2 ^ e \<le> x\<close>, for a positive \<open>x\<close>.\<close>

definition floor_log2 :: "rat \<Rightarrow> int" where
  "floor_log2 x =
     (let (p, q) = quotient_of x;
          k = int (bit_length p) - int (bit_length q)
      in if pow2 k \<le> x then k else k - 1)"

definition round_half_even :: "rat \<Rightarrow> int" where
  "round_half_even x =
     (let f = \<lfloor>x\<rfloor>; d = x - of_int f
      in if d < 1 / 2 then f
         else if 1 / 2 < d then f + 1
         else if even f then f else f + 1)"

text \<open>
  Rounding to the nearest binary64 value, ties to even: a significand of 53 bits, the
  exponent not below -1022. The result is infinite from \<open>2 ^ 1024\<close> on: when the exponent
  of the value is above 1023, or is 1023 and the significand rounds up to \<open>2 ^ 53\<close>.
\<close>

definition to_double :: "rat \<Rightarrow> jsnum" where
  "to_double v =
     (if v = 0 then Fin 0
      else
        let a = \<bar>v\<bar>;
            e = floor_log2 a;
            q = pow2 (max e (- 1022) - 52);
            n = round_half_even (a / q);
            r = of_int n * q
        in if 1024 \<le> e \<or> (e = 1023 \<and> n = 2 ^ 53) then (if v < 0 then NegInf else PosInf)
           else Fin (if v < 0 then - r else r))"

definition digit_of :: "char \<Rightarrow> nat" where
  "digit_of c =
     (if is_digit c then code c - 48
      else if 97 \<le> code c \<and> code c \<le> 102 then code c - 87
      else if 65 \<le> code c \<and> code c \<le> 70 then code c - 55
      else 16)"

text \<open>A non-empty run of digits of base \<open>b\<close>, and nothing else.\<close>

definition radix_val :: "nat \<Rightarrow> string \<Rightarrow> int option" where
  "radix_val b s =
     (if s \<noteq> [] \<and> list_all (\<lambda>c. digit_of c < b) s
      then Some (foldl (\<lambda>a c. a * int b + int (digit_of c)) 0 s) else None)"

definition signed_integer :: "string \<Rightarrow> int option" where
  "signed_integer s =
     (case s of
        [] \<Rightarrow> None
      | c # t \<Rightarrow>
          if c = CHR ''+'' then radix_val 10 t
          else if c = CHR ''-'' then map_option uminus (radix_val 10 t)
          else radix_val 10 s)"

definition exponent_part :: "string \<Rightarrow> int option" where
  "exponent_part r =
     (case r of
        [] \<Rightarrow> Some 0
      | c # t \<Rightarrow> if c = CHR ''e'' \<or> c = CHR ''E'' then signed_integer t else None)"

text \<open>Digits, an optional fraction (one side of the point may be empty), an optional exponent.\<close>

definition unsigned_decimal :: "string \<Rightarrow> rat option" where
  "unsigned_decimal s =
     (let ip = takeWhile is_digit s;
          r1 = dropWhile is_digit s;
          (fp, r2) = (case r1 of
                        [] \<Rightarrow> ([], [])
                      | c # t \<Rightarrow> if c = CHR ''.'' then (takeWhile is_digit t, dropWhile is_digit t)
                                 else ([], r1))
      in if ip = [] \<and> fp = [] then None
         else (case exponent_part r2 of
                 None \<Rightarrow> None
               | Some e \<Rightarrow>
                   Some (of_int (foldl (\<lambda>a c. a * 10 + int (digit_of c)) 0 (ip @ fp))
                         * pow10 (e - int (length fp)))))"

definition str_decimal :: "string \<Rightarrow> jsnum" where
  "str_decimal s =
     (let (neg, u) = (case s of
                        [] \<Rightarrow> (False, s)
                      | c # t \<Rightarrow> if c = CHR ''-'' then (True, t)
                                 else if c = CHR ''+'' then (False, t) else (False, s))
      in if u = ''Infinity'' then (if neg then NegInf else PosInf)
         else (case unsigned_decimal u of
                 None \<Rightarrow> NaN
               | Some v \<Rightarrow> to_double (if neg then - v else v)))"

definition non_decimal :: "string \<Rightarrow> int option" where
  "non_decimal s =
     (case s of
        z # x # t \<Rightarrow>
          if z \<noteq> CHR ''0'' then None
          else if x = CHR ''x'' \<or> x = CHR ''X'' then radix_val 16 t
          else if x = CHR ''o'' \<or> x = CHR ''O'' then radix_val 8 t
          else if x = CHR ''b'' \<or> x = CHR ''B'' then radix_val 2 t
          else None
      | _ \<Rightarrow> None)"

definition StringToNumber :: "string \<Rightarrow> jsnum" where
  "StringToNumber s =
     (let t = trim s
      in if t = [] then Fin 0
         else (case non_decimal t of
                 Some n \<Rightarrow> to_double (of_int n)
               | None \<Rightarrow> str_decimal t))"

text \<open>\<^verbatim>\<open>Number(x)\<close> for a route parameter: a missing one is \<^verbatim>\<open>undefined\<close>, which gives \<^verbatim>\<open>NaN\<close>.\<close>

fun Number_coerce :: "string option \<Rightarrow> jsnum" where
  "Number_coerce None = NaN"
| "Number_coerce (Some s) = StringToNumber s"

text \<open>\<^verbatim>\<open>Number.isInteger(x)\<close> and \<^verbatim>\<open>x <= 0\<close>.\<close>

fun isInteger :: "jsnum \<Rightarrow> bool" where
  "isInteger (Fin v) = (of_int \<lfloor>v\<rfloor> = v)"
| "isInteger _ = False"

fun le_zero :: "jsnum \<Rightarrow> bool" where
  "le_zero (Fin v) = (v \<le> 0)"
| "le_zero NegInf = True"
| "le_zero _ = False"

fun int_value :: "jsnum \<Rightarrow> int" where
  "int_value (Fin v) = \<lfloor>v\<rfloor>"
| "int_value _ = 0"

subsection \<open>userIdSchema\<close>

text \<open>
  \<^verbatim>\<open>
  export const userIdSchema = z.object({
    id: z.coerce.number().int().positive('User ID must be a positive integer'),
  });
  \<close>
  \<^verbatim>\<open>NaN\<close> is not a number for zod and stops the parse; on a number the checks run in
  order, \<^verbatim>\<open>int()\<close> as \<^verbatim>\<open>Number.isInteger\<close> and \<^verbatim>\<open>positive()\<close> as \<^verbatim>\<open>!(x <= 0)\<close>. The schema
  is applied to \<^verbatim>\<open>req.params\<close>, the route parameters. (Releases of zod differ in the issue
  they give for an infinite value and in whether \<^verbatim>\<open>int()\<close> also bounds the integer by
  \<open>2 ^ 53\<close>; both reject whatever is rejected here.)
\<close>

definition positive_message :: string where
  "positive_message = ''User ID must be a positive integer''"

definition userIdSchema :: "zod_messages \<Rightarrow> (string \<times> string) list \<Rightarrow> issue list + int" where
  "userIdSchema zm params =
     (let x = Number_coerce (map_of params ''id'')
      in if x = NaN then Inl [\<lparr>path = [''id''], message = zm (InvalidType ''number'')\<rparr>]
         else
           let ms = (if isInteger x then [] else [zm NotInteger])
                    @ (if le_zero x then [positive_message] else [])
           in if ms = [] then Inr (int_value x)
              else Inl (map (\<lambda>m. \<lparr>path = [''id''], message = m\<rparr>) ms))"

section \<open>Requests, responses and the access guard\<close>

text \<open>
  The decoded credential, as far as the code reads it: \<^verbatim>\<open>req.user.id\<close> and
  \<^verbatim>\<open>req.user.role\<close>. Either may be any value the token carries.
\<close>

record claim =
  cid :: jsval
  crole :: jsval

text \<open>
  The request, as far as the code reads it: \<^verbatim>\<open>req.cookies\<close> (absent when no cookie
  parser ran), \<^verbatim>\<open>req.params\<close>, \<^verbatim>\<open>req.body\<close> and \<^verbatim>\<open>req.user\<close>, which the authentication
  step sets.
\<close>

record request =
  cookies :: "(string \<times> string) list option"
  params :: "(string \<times> string) list"
  body :: jsval
  user :: "claim option"

record response =
  status :: nat
  payload :: jsval

text \<open>
  What a handler may throw or pass on: an \<^verbatim>\<open>Error\<close> with its message, the \<^verbatim>\<open>TypeError\<close> of
  reading a property of \<^verbatim>\<open>undefined\<close>, a failure raised by the store.
\<close>

datatype error = Error string | TypeError | StoreFailure

text \<open>
  A pipeline step ends the request with a response, hands the request on (\<^verbatim>\<open>next()\<close>) or
  hands an error to the error reporting (\<^verbatim>\<open>next(e)\<close>).
\<close>

datatype outcome = Responded response | Next request | NextError error

text \<open>\<^verbatim>\<open>res.status(code).json({...})\<close>; \<^verbatim>\<open>res.json({...})\<close> is the same with status 200.\<close>

definition json :: "nat \<Rightarrow> (string \<times> jsval) list \<Rightarrow> outcome" where
  "json st members = Responded \<lparr>status = st, payload = JObj members\<rparr>"

subsection \<open>auth.middleware.js\<close>

text \<open>
  \<^verbatim>\<open>
  export const authenticateToken = (req, res, next) => {
    try {
      const token = req.cookies?.token;
      if (!token) {
        return res.status(401).json({ error: 'Access denied', message: 'No token provided' });
      }
      const decoded = jwttoken.verify(token);
      req.user = decoded;
      next();
    } catch (error) {
      return res.status(401).json({ error: 'Access denied', message: 'Invalid token' });
    }
  };
  \<close>
  \<^verbatim>\<open>jwttoken.verify\<close> is a parameter: \<open>None\<close> when it throws, the decoded claim otherwise.
  \<open>cookie_token\<close> is \<^verbatim>\<open>req.cookies?.token\<close>. Past the guard the token is there, and
  \<open>Option.bind token verify\<close> is its verification. The calls of the logger have no part
  in the outcome and are left out, here and in the handlers.
\<close>

definition cookie_token :: "request \<Rightarrow> string option" where
  "cookie_token req = (case cookies req of None \<Rightarrow> None | Some cs \<Rightarrow> map_of cs ''token'')"

definition authenticateToken :: "(string \<Rightarrow> claim option) \<Rightarrow> request \<Rightarrow> outcome" where
  "authenticateToken verify req =
     (let token = cookie_token req
      in if falsy_str token
         then json 401 [(''error'', JStr ''Access denied''), (''message'', JStr ''No token provided'')]
         else (case Option.bind token verify of
                 Some decoded \<Rightarrow> Next (req\<lparr>user := Some decoded\<rparr>)
               | None \<Rightarrow>
                   json 401 [(''error'', JStr ''Access denied''), (''message'', JStr ''Invalid token'')]))"

text \<open>
  \<^verbatim>\<open>
  export const requireRole = (roles = []) => {
    return (req, res, next) => {
      if (!req.user) {
        return res.status(401).json({ error: 'Access denied', message: 'Authentication required' });
      }
      if (roles.length && !roles.includes(req.user.role)) {
        return res.status(403).json({ error: 'Forbidden', message: 'Insufficient permissions' });
      }
      next();
    };
  };
  \<close>
\<close>

definition requireRole :: "jsval list \<Rightarrow> request \<Rightarrow> outcome" where
  "requireRole roles req =
     (case user req of
        None \<Rightarrow>
          json 401 [(''error'', JStr ''Access denied''), (''message'', JStr ''Authentication required'')]
      | Some u \<Rightarrow>
          if roles \<noteq> [] \<and> crole u \<notin> set roles
          then json 403 [(''error'', JStr ''Forbidden''), (''message'', JStr ''Insufficient permissions'')]
          else Next req)"

section \<open>The users table and the record service\<close>

text \<open>
  \<^verbatim>\<open>
  export const users = pgTable("users", {
      id: serial("id").primaryKey(),
      name: varchar("name", { length: 255 }).notNull(),
      email: varchar("email", { length: 255 }).notNull().unique(),
      password: varchar("password", { length: 255 }).notNull(),
      role: varchar("role", { length: 50 }).notNull().default("user"),
      created_at: timestamp("created_at", { mode: "date" }).defaultNow().notNull(),
      updated_at: timestamp("updated_at", { mode: "date" }).defaultNow().notNull(),
  });
  \<close>
  The store is the list of the table's rows, and a query is evaluated on that list. Of
  the failures the store can raise, the model has the two the table declares and these
  queries can meet: the range of the \<^verbatim>\<open>id\<close> column and the unique constraint on \<^verbatim>\<open>email\<close>.
  Failures of the connection are not modelled.
\<close>

record user_row =
  c_id :: int
  c_name :: string
  c_email :: string
  c_password :: string
  c_role :: string
  c_created_at :: int
  c_updated_at :: int

type_synonym store = "user_row list"

text \<open>
  \<^verbatim>\<open>serial\<close> is a 32-bit integer column. A query that compares \<^verbatim>\<open>users.id\<close> with a number
  outside the range of the column is refused by the store with an error (the value is out
  of range for the type), it does not select the empty set of rows.
\<close>

definition int4_range :: "int \<Rightarrow> bool" where
  "int4_range i = (- 2147483648 \<le> i \<and> i \<le> 2147483647)"

text \<open>The columns, as the values a query returns for them.\<close>

definition users_id :: "user_row \<Rightarrow> jsval" where
  "users_id r = JNum (of_int (c_id r))"

definition users_name :: "user_row \<Rightarrow> jsval" where
  "users_name r = JStr (c_name r)"

definition users_email :: "user_row \<Rightarrow> jsval" where
  "users_email r = JStr (c_email r)"

definition users_password :: "user_row \<Rightarrow> jsval" where
  "users_password r = JStr (c_password r)"

definition users_role :: "user_row \<Rightarrow> jsval" where
  "users_role r = JStr (c_role r)"

definition users_created_at :: "user_row \<Rightarrow> jsval" where
  "users_created_at r = JDate (c_created_at r)"

definition users_updated_at :: "user_row \<Rightarrow> jsval" where
  "users_updated_at r = JDate (c_updated_at r)"

text \<open>
  \<^verbatim>\<open>.select({key: column, ...})\<close> and \<^verbatim>\<open>.returning({key: column, ...})\<close> build, for each row,
  the object with the listed keys.
\<close>

definition select_fields :: "(string \<times> (user_row \<Rightarrow> jsval)) list \<Rightarrow> user_row \<Rightarrow> jsval" where
  "select_fields sel r = JObj (map (\<lambda>(k, col). (k, col r)) sel)"

text \<open>The selection of \<^verbatim>\<open>getALLUsers\<close>, \<^verbatim>\<open>getUserById\<close> and \<^verbatim>\<open>updateUser\<close>.\<close>

definition user_fields :: "(string \<times> (user_row \<Rightarrow> jsval)) list" where
  "user_fields =
     [(''id'', users_id), (''email'', users_email), (''name'', users_name),
      (''role'', users_role), (''created_at'', users_created_at),
      (''updated_at'', users_updated_at)]"

text \<open>The selection of \<^verbatim>\<open>deleteUser\<close>.\<close>

definition deleted_fields :: "(string \<times> (user_row \<Rightarrow> jsval)) list" where
  "deleted_fields =
     [(''id'', users_id), (''email'', users_email), (''name'', users_name),
      (''role'', users_role)]"

text \<open>\<^verbatim>\<open>rows[0]\<close>: \<^verbatim>\<open>undefined\<close> on the empty array.\<close>

fun first_row :: "jsval list \<Rightarrow> jsval" where
  "first_row [] = JUndefined"
| "first_row (r # rs) = r"

subsection \<open>users.service.js\<close>

definition getALLUsers :: "store \<Rightarrow> error + jsval list" where
  "getALLUsers db = Inr (map (select_fields user_fields) db)"

text \<open>
  \<^verbatim>\<open>
  const user = await db.select({...}).from(users).where(eq(users.id, id)).limit(1);
  if (!user.length) { throw new Error('User not found'); }
  return user[0];
  \<close>
  The query throws when the id is outside the range of the column, and the \<^verbatim>\<open>catch\<close> block
  throws the error on.
\<close>

definition getUserById :: "int \<Rightarrow> store \<Rightarrow> error + jsval" where
  "getUserById i db =
     (if \<not> int4_range i then Inl StoreFailure
      else
        let user = take 1 (map (select_fields user_fields) (filter (\<lambda>r. c_id r = i) db))
        in if user = [] then Inl (Error ''User not found'') else Inr (first_row user))"

text \<open>
  \<^verbatim>\<open>.set({...updates, updated_at: new Date()})\<close>: the keys of \<open>updates\<close> that are there, and
  the time stamp.
\<close>

definition set_columns :: "updates \<Rightarrow> int \<Rightarrow> user_row \<Rightarrow> user_row" where
  "set_columns upd now r =
     r\<lparr>c_name := (case u_name upd of None \<Rightarrow> c_name r | Some n \<Rightarrow> n),
       c_email := (case u_email upd of None \<Rightarrow> c_email r | Some e \<Rightarrow> e),
       c_role := (case u_role upd of None \<Rightarrow> c_role r | Some ro \<Rightarrow> ro),
       c_updated_at := now\<rparr>"

text \<open>The unique constraint: the new e-mail address is the address of a row that stays as it is.\<close>

definition email_taken :: "int \<Rightarrow> updates \<Rightarrow> store \<Rightarrow> bool" where
  "email_taken i upd db =
     (case u_email upd of
        None \<Rightarrow> False
      | Some e \<Rightarrow> list_ex (\<lambda>r. c_id r \<noteq> i \<and> c_email r = e) db)"

text \<open>
  \<^verbatim>\<open>
  export const updateUser = async (id, updates) => {
      await getUserById(id);
      const updateData = { ...updates, updated_at: new Date() };
      const updatedUser = await db.update(users).set(updateData)
          .where(eq(users.id, id)).returning({...});
      return updatedUser[0];
  };
  \<close>
  \<open>now\<close> is the value of \<^verbatim>\<open>new Date()\<close>.
\<close>

definition updateUser :: "int \<Rightarrow> updates \<Rightarrow> int \<Rightarrow> store \<Rightarrow> error + (jsval \<times> store)" where
  "updateUser i upd now db =
     (case getUserById i db of
        Inl e \<Rightarrow> Inl e
      | Inr _ \<Rightarrow>
          if email_taken i upd db then Inl StoreFailure
          else
            let db' = map (\<lambda>r. if c_id r = i then set_columns upd now r else r) db;
                updatedUser = map (select_fields user_fields) (filter (\<lambda>r. c_id r = i) db')
            in Inr (first_row updatedUser, db'))"

text \<open>
  \<^verbatim>\<open>
  export const deleteUser = async (id) => {
      await getUserById(id);
      const deletedUser = await db.delete(users).where(eq(users.id, id))
          .returning({ id: users.id, email: users.email, name: users.name, role: users.role });
      return deletedUser[0];
  };
  \<close>
\<close>

definition deleteUser :: "int \<Rightarrow> store \<Rightarrow> error + (jsval \<times> store)" where
  "deleteUser i db =
     (case getUserById i db of
        Inl e \<Rightarrow> Inl e
      | Inr _ \<Rightarrow>
          let deletedUser = map (select_fields deleted_fields) (filter (\<lambda>r. c_id r = i) db)
          in Inr (first_row deletedUser, filter (\<lambda>r. c_id r \<noteq> i) db))"

section \<open>The request handlers\<close>

subsection \<open>formatValidationError\<close>

text \<open>
  \<^verbatim>\<open>
  export const formatValidationError = (errors) => {
      if (!errors || !errors.issues) return "Validation failed";
      if (Array.isArray(errors.issues)) {
          const messages = errors.issues.map((i) => i.message);
          return `Invalid input: ${messages.join(", ")}`;
      }
      return JSON.stringify(errors);
  };
  \<close>
  The argument is absent or has no issues, or it has an array of issues (what a failed
  \<^verbatim>\<open>safeParseAsync\<close> gives), or its issues are not an array; \<open>NotArray\<close> carries its
  \<^verbatim>\<open>JSON.stringify\<close> text.
\<close>

datatype validation_error = NoIssues | Issues "issue list" | NotArray string

fun formatValidationError :: "validation_error \<Rightarrow> string" where
  "formatValidationError NoIssues = ''Validation failed''"
| "formatValidationError (Issues is) = ''Invalid input: '' @ join '', '' (map message is)"
| "formatValidationError (NotArray text) = text"

subsection \<open>users.controller.js\<close>

type_synonym handler = "request \<Rightarrow> store \<Rightarrow> outcome \<times> store"

text \<open>The response to a failed validation, the same in the three handlers by id.\<close>

definition validation_failed :: "issue list \<Rightarrow> outcome" where
  "validation_failed is =
     json 400 [(''error'', JStr ''Validation failed''),
               (''details'', JStr (formatValidationError (Issues is)))]"

text \<open>
  The \<^verbatim>\<open>catch\<close> block of the three handlers by id:
  \<^verbatim>\<open>
  if (e.message === 'User not found') {
    return res.status(404).json({
      error: 'User not found', message: 'The requested user does not exist' });
  }
  next(e);
  \<close>
\<close>

fun on_error :: "error \<Rightarrow> outcome" where
  "on_error (Error m) =
     (if m = ''User not found''
      then json 404 [(''error'', JStr ''User not found''),
                     (''message'', JStr ''The requested user does not exist'')]
      else NextError (Error m))"
| "on_error e = NextError e"

definition fetchAllUsers :: handler where
  "fetchAllUsers req db =
     (case getALLUsers db of
        Inl e \<Rightarrow> (NextError e, db)
      | Inr allUsers \<Rightarrow>
          (json 200 [(''message'', JStr ''Successful retrieved users''),
                     (''users'', JArr allUsers),
                     (''count'', JNum (of_nat (length allUsers)))], db))"

definition fetchUserById :: "zod_messages \<Rightarrow> handler" where
  "fetchUserById zm req db =
     (case userIdSchema zm (params req) of
        Inl is \<Rightarrow> (validation_failed is, db)
      | Inr i \<Rightarrow>
          (case getUserById i db of
             Inl e \<Rightarrow> (on_error e, db)
           | Inr u \<Rightarrow>
               (json 200 [(''message'', JStr ''User retrieved successfully''), (''user'', u)], db)))"

text \<open>
  \<^verbatim>\<open>
  if (req.user.id !== id && req.user.role !== 'admin') {
    return res.status(403).json({
      error: 'Forbidden', message: 'You can only update your own information' });
  }
  if (updates.role && req.user.role !== 'admin') {
    return res.status(403).json({
      error: 'Forbidden', message: 'Only admin users can change user roles' });
  }
  const updatedUser = await updateUser(id, updates);
  res.json({ message: 'User updated successfully', user: updatedUser });
  \<close>
  Reading \<^verbatim>\<open>req.user.id\<close> when \<^verbatim>\<open>req.user\<close> is \<^verbatim>\<open>undefined\<close> throws, and the \<^verbatim>\<open>catch\<close> block
  passes the error on.
\<close>

definition updateUserById :: "zod_messages \<Rightarrow> int \<Rightarrow> handler" where
  "updateUserById zm now req db =
     (case userIdSchema zm (params req) of
        Inl is \<Rightarrow> (validation_failed is, db)
      | Inr i \<Rightarrow>
          (case updateUserSchema zm (body req) of
             Inl is \<Rightarrow> (validation_failed is, db)
           | Inr upd \<Rightarrow>
               (case user req of
                  None \<Rightarrow> (on_error TypeError, db)
                | Some u \<Rightarrow>
                    if cid u \<noteq> JNum (of_int i) \<and> crole u \<noteq> JStr ''admin''
                    then (json 403 [(''error'', JStr ''Forbidden''),
                                    (''message'', JStr ''You can only update your own information'')],
                          db)
                    else if \<not> falsy_str (u_role upd) \<and> crole u \<noteq> JStr ''admin''
                    then (json 403 [(''error'', JStr ''Forbidden''),
                                    (''message'', JStr ''Only admin users can change user roles'')],
                          db)
                    else (case updateUser i upd now db of
                            Inl e \<Rightarrow> (on_error e, db)
                          | Inr (updatedUser, db') \<Rightarrow>
                              (json 200 [(''message'', JStr ''User updated successfully''),
                                         (''user'', updatedUser)], db')))))"

definition deleteUserById :: "zod_messages \<Rightarrow> handler" where
  "deleteUserById zm req db =
     (case userIdSchema zm (params req) of
        Inl is \<Rightarrow> (validation_failed is, db)
      | Inr i \<Rightarrow>
          (case user req of
             None \<Rightarrow> (on_error TypeError, db)
           | Some u \<Rightarrow>
               if cid u \<noteq> JNum (of_int i) \<and> crole u \<noteq> JStr ''admin''
               then (json 403 [(''error'', JStr ''Forbidden''),
                               (''message'', JStr ''You can only delete your own account'')],
                     db)
               else (case deleteUser i db of
                       Inl e \<Rightarrow> (on_error e, db)
                     | Inr (deletedUser, db') \<Rightarrow>
                         (json 200 [(''message'', JStr ''User deleted successfully''),
                                    (''user'', deletedUser)], db'))))"

subsection \<open>users.routes.js\<close>

text \<open>A middleware before a handler: the handler runs on the request the middleware hands on.\<close>

definition guarded :: "(request \<Rightarrow> outcome) \<Rightarrow> handler \<Rightarrow> handler" where
  "guarded m h req db =
     (case m req of
        Next req' \<Rightarrow> h req' db
      | out \<Rightarrow> (out, db))"

text \<open>
  \<^verbatim>\<open>
  router.get('/', authenticateToken, requireRole(['admin']), fetchAllUsers);
  router.get('/:id', authenticateToken, fetchUserById);
  router.put('/:id', authenticateToken, updateUserById);
  router.delete('/:id', authenticateToken, deleteUserById);
  \<close>
\<close>

definition get_users :: "(string \<Rightarrow> claim option) \<Rightarrow> handler" where
  "get_users verify =
     guarded (authenticateToken verify) (guarded (requireRole [JStr ''admin'']) fetchAllUsers)"

definition get_user :: "(string \<Rightarrow> claim option) \<Rightarrow> zod_messages \<Rightarrow> handler" where
  "get_user verify zm = guarded (authenticateToken verify) (fetchUserById zm)"

definition put_user :: "(string \<Rightarrow> claim option) \<Rightarrow> zod_messages \<Rightarrow> int \<Rightarrow> handler" where
  "put_user verify zm now = guarded (authenticateToken verify) (updateUserById zm now)"

definition delete_user :: "(string \<Rightarrow> claim option) \<Rightarrow> zod_messages \<Rightarrow> handler" where
  "delete_user verify zm = guarded (authenticateToken verify) (deleteUserById zm)"

section \<open>Observations on responses, and example data\<close>

text \<open>A response body carries a list when one of its members is an array.\<close>

fun is_array :: "jsval \<Rightarrow> bool" where
  "is_array (JArr xs) = True"
| "is_array _ = False"

fun has_array_member :: "jsval \<Rightarrow> bool" where
  "has_array_member (JObj kvs) = list_ex (\<lambda>kv. is_array (snd kv)) kvs"
| "has_array_member _ = False"

text \<open>One choice of texts for the library's messages, for the examples.\<close>

definition example_messages :: zod_messages where
  "example_messages k =
     (case k of
        InvalidType t \<Rightarrow> ''Expected '' @ t
      | NotInteger \<Rightarrow> ''Expected integer''
      | TooSmall n \<Rightarrow> ''Too small''
      | TooBig n \<Rightarrow> ''Too big''
      | InvalidEmail \<Rightarrow> ''Invalid email''
      | InvalidEnumValue vs \<Rightarrow> ''Invalid enum value'')"

text \<open>A store with a plain user (id 5) and an administrator (id 7), and their claims.\<close>

definition ann :: user_row where
  "ann = \<lparr>c_id = 5, c_name = ''Ann'', c_email = ''ann@example.org'', c_password = ''hash-a'',
          c_role = ''user'', c_created_at = 1000, c_updated_at = 1000\<rparr>"

definition bob :: user_row where
  "bob = \<lparr>c_id = 7, c_name = ''Bob'', c_email = ''bob@example.org'', c_password = ''hash-b'',
          c_role = ''admin'', c_created_at = 2000, c_updated_at = 3000\<rparr>"

definition ann_claim :: claim where
  "ann_claim = \<lparr>cid = JNum 5, crole = JStr ''user''\<rparr>"

definition bob_claim :: claim where
  "bob_claim = \<lparr>cid = JNum 7, crole = JStr ''admin''\<rparr>"

text \<open>A verifier that knows two tokens, and one that accepts none.\<close>

definition example_verify :: "string \<Rightarrow> claim option" where
  "example_verify t =
     (if t = ''token-of-ann'' then Some ann_claim
      else if t = ''token-of-bob'' then Some bob_claim
      else None)"

definition no_valid_token :: "string \<Rightarrow> claim option" where
  "no_valid_token t = None"

text \<open>A request as the handlers see it (the claim attached), and as it arrives (a cookie).\<close>

definition request_by :: "claim \<Rightarrow> string \<Rightarrow> jsval \<Rightarrow> request" where
  "request_by c i b = \<lparr>cookies = None, params = [(''id'', i)], body = b, user = Some c\<rparr>"

definition request_with_token :: "string \<Rightarrow> request" where
  "request_with_token t =
     \<lparr>cookies = Some [(''token'', t)], params = [], body = JUndefined, user = None\<rparr>"

definition request_without_cookie :: request where
  "request_without_cookie = \<lparr>cookies = None, params = [], body = JUndefined, user = None\<rparr>"

section \<open>Facts about the schemas and the record service\<close>

lemma optional_enum_Parsed:
  "optional_enum zm k vs v = Parsed is (Some r) \<Longrightarrow> r \<in> set vs"
  by (cases v) (auto split: if_splits)

lemma update_object_role:
  "update_object zm b = Parsed is upd \<Longrightarrow> u_role upd = Some r \<Longrightarrow> r \<in> set role_values"
  by (auto simp: update_object_def Let_def split: if_splits parsed.splits dest: optional_enum_Parsed)

lemma updateUserSchema_role:
  "updateUserSchema zm b = Inr upd \<Longrightarrow> u_role upd = Some r \<Longrightarrow> r = ''user'' \<or> r = ''admin''"
  using update_object_role[of zm b _ upd r]
  by (auto simp: updateUserSchema_def Let_def role_values_def split: parsed.splits if_splits)

text \<open>A role that passed the schema is a non-empty string, so \<^verbatim>\<open>updates.role\<close> is truthy.\<close>

lemma validated_role_truthy:
  "updateUserSchema zm b = Inr upd \<Longrightarrow> u_role upd \<noteq> None \<Longrightarrow> \<not> falsy_str (u_role upd)"
  using updateUserSchema_role[of zm b upd] by (cases "u_role upd") auto

lemma updateUserSchema_object:
  "updateUserSchema zm b = Inr upd \<Longrightarrow> is_object b"
  by (auto simp: updateUserSchema_def update_object_def split: if_splits)

text \<open>The schema reads the three keys of its shape and nothing else of the body.\<close>

lemma updateUserSchema_same_fields:
  assumes "is_object b" "is_object b'"
    and "get_prop b' ''name'' = get_prop b ''name''"
    and "get_prop b' ''email'' = get_prop b ''email''"
    and "get_prop b' ''role'' = get_prop b ''role''"
  shows "updateUserSchema zm b' = updateUserSchema zm b"
  using assms by (simp add: updateUserSchema_def update_object_def)

lemma isInteger_Ints: "isInteger (Fin v) \<longleftrightarrow> v \<in> \<int>"
  by (auto simp: Ints_def)

text \<open>The identifier schema accepts the strings that coerce to a positive integer.\<close>

lemma userIdSchema_accepts:
  "map_of ps ''id'' = Some s \<Longrightarrow> StringToNumber s = Fin (of_int n) \<Longrightarrow> 0 < n \<Longrightarrow>
   userIdSchema zm ps = Inr n"
  by (simp add: userIdSchema_def Let_def)

lemma userIdSchema_zero:
  "userIdSchema zm [(''id'', ''0'')] =
     Inl [\<lparr>path = [''id''], message = ''User ID must be a positive integer''\<rparr>]"
  by code_simp



lemma first_row_map:
  "rs \<noteq> [] \<Longrightarrow> first_row (map f rs) = f (hd rs)"
  by (cases rs) simp_all

lemma getUserById_absent:
  "int4_range i \<Longrightarrow> \<forall>r\<in>set db. c_id r \<noteq> i \<Longrightarrow>
   getUserById i db = Inl (Error ''User not found'')"
  by (simp add: getUserById_def filter_False)

text \<open>An id outside the range of the column is a failure of the store, whatever the rows.\<close>

lemma getUserById_out_of_range:
  "\<not> int4_range i \<Longrightarrow> getUserById i db = Inl StoreFailure"
  by (simp add: getUserById_def)

lemma getUserById_Inr:
  "getUserById i db = Inr u \<Longrightarrow>
     int4_range i \<and> filter (\<lambda>r. c_id r = i) db \<noteq> []
     \<and> u = select_fields user_fields (hd (filter (\<lambda>r. c_id r = i) db))"
  by (cases "filter (\<lambda>r. c_id r = i) db") (auto simp: getUserById_def Let_def split: if_splits)

text \<open>\<open>getUserById\<close> finds a user exactly when the id is in range and a row has it.\<close>

lemma getUserById_Inr_iff:
  "(\<exists>u. getUserById i db = Inr u) \<longleftrightarrow> int4_range i \<and> (\<exists>r\<in>set db. c_id r = i)"
  by (auto simp: getUserById_def Let_def filter_empty_conv)

lemma c_id_set_columns: "c_id (set_columns upd now r) = c_id r"
  by (simp add: set_columns_def)

lemma filter_updated:
  "filter (\<lambda>r. c_id r = i) (map (\<lambda>r. if c_id r = i then set_columns upd now r else r) db)
   = map (set_columns upd now) (filter (\<lambda>r. c_id r = i) db)"
  by (induction db) (auto simp: c_id_set_columns)

lemma updateUser_Inr:
  assumes "updateUser i upd now db = Inr (u, db')"
  shows "filter (\<lambda>r. c_id r = i) db \<noteq> []"
    and "db' = map (\<lambda>r. if c_id r = i then set_columns upd now r else r) db"
    and "u = select_fields user_fields (set_columns upd now (hd (filter (\<lambda>r. c_id r = i) db)))"
proof -
  from assms obtain v where v: "getUserById i db = Inr v"
    by (auto simp: updateUser_def split: sum.splits)
  from getUserById_Inr[OF v] show ne: "filter (\<lambda>r. c_id r = i) db \<noteq> []" by simp
  from assms v show "db' = map (\<lambda>r. if c_id r = i then set_columns upd now r else r) db"
    by (auto simp: updateUser_def Let_def split: if_splits)
  from assms v have "u = first_row (map (select_fields user_fields)
      (filter (\<lambda>r. c_id r = i) (map (\<lambda>r. if c_id r = i then set_columns upd now r else r) db)))"
    by (auto simp: updateUser_def Let_def split: if_splits)
  with ne show "u = select_fields user_fields (set_columns upd now (hd (filter (\<lambda>r. c_id r = i) db)))"
    by (simp add: filter_updated first_row_map hd_map)
qed

text \<open>An update succeeds when the row is there and the new address is free.\<close>

lemma updateUser_succeeds:
  "int4_range i \<Longrightarrow> \<exists>r\<in>set db. c_id r = i \<Longrightarrow> \<not> email_taken i upd db \<Longrightarrow>
   \<exists>u db'. updateUser i upd now db = Inr (u, db')"
  using getUserById_Inr_iff[of i db] by (auto simp: updateUser_def Let_def)

lemma deleteUser_Inr:
  assumes "deleteUser i db = Inr (u, db')"
  shows "u = select_fields deleted_fields (hd (filter (\<lambda>r. c_id r = i) db))"
    and "db' = filter (\<lambda>r. c_id r \<noteq> i) db"
    and "int4_range i"
proof -
  from assms obtain v where v: "getUserById i db = Inr v"
    by (auto simp: deleteUser_def split: sum.splits)
  from getUserById_Inr[OF v] show "int4_range i" by simp
  from getUserById_Inr[OF v] have ne: "filter (\<lambda>r. c_id r = i) db \<noteq> []" by simp
  from assms v have "u = first_row (map (select_fields deleted_fields) (filter (\<lambda>r. c_id r = i) db))"
    by (auto simp: deleteUser_def Let_def)
  with ne show "u = select_fields deleted_fields (hd (filter (\<lambda>r. c_id r = i) db))"
    by (simp add: first_row_map)
  from assms v show "db' = filter (\<lambda>r. c_id r \<noteq> i) db"
    by (auto simp: deleteUser_def Let_def)
qed

text \<open>A delete answered with 200 passed the validation and the authorization and removed the row.\<close>

lemma deleteUserById_ok:
  assumes "deleteUserById zm req db = (json 200 ms, db')"
  shows "\<exists>i u d. userIdSchema zm (params req) = Inr i \<and> user req = Some u
           \<and> \<not> (cid u \<noteq> JNum (of_int i) \<and> crole u \<noteq> JStr ''admin'')
           \<and> deleteUser i db = Inr (d, db')"
proof (cases "userIdSchema zm (params req)")
  case (Inl iss)
  with assms show ?thesis by (simp add: deleteUserById_def validation_failed_def json_def)
next
  case (Inr i)
  note valid = Inr
  show ?thesis
  proof (cases "user req")
    case None
    with valid assms show ?thesis by (simp add: deleteUserById_def json_def)
  next
    case (Some u)
    show ?thesis
    proof (cases "cid u \<noteq> JNum (of_int i) \<and> crole u \<noteq> JStr ''admin''")
      case True
      with valid Some assms show ?thesis by (simp add: deleteUserById_def json_def)
    next
      case False
      show ?thesis
      proof (cases "deleteUser i db")
        case (Inl e)
        with valid Some False assms show ?thesis
          by (cases e) (auto simp: deleteUserById_def json_def split: if_splits)
      next
        case (Inr p)
        with valid Some False assms show ?thesis
          by (cases p) (auto simp: deleteUserById_def json_def)
      qed
    qed
  qed
qed

subsection \<open>The e-mail pattern and white space\<close>

lemma split_on_nonempty: "split_on c s \<noteq> []"
  by (cases s) (auto split: list.splits)

lemma split_on_single: "split_on c s = [d] \<Longrightarrow> s = d"
  by (induction s arbitrary: d) (auto simp: split_on_nonempty split: if_splits list.splits)

lemma split_on_pair: "split_on c s = [l, d] \<Longrightarrow> s = l @ c # d"
proof (induction s arbitrary: l)
  case Nil
  then show ?case by simp
next
  case (Cons x xs)
  show ?case
  proof (cases "x = c")
    case True
    with Cons.prems have "l = []" and "split_on c xs = [d]" by simp_all
    with True split_on_single[of c xs d] show ?thesis by simp
  next
    case False
    with Cons.prems obtain p where "split_on c xs = [p, d]" and "l = x # p"
      by (auto split: list.splits)
    with Cons.IH[of p] show ?thesis by simp
  qed
qed

lemma last_split_on:
  "last (split_on c s) \<noteq> [] \<Longrightarrow> s \<noteq> [] \<and> last s = last (last (split_on c s))"
proof (induction s)
  case Nil
  then show ?case by simp
next
  case (Cons x xs)
  show ?case
  proof (cases "x = c")
    case True
    with Cons.prems have ne: "last (split_on c xs) \<noteq> []"
      by (simp add: split_on_nonempty)
    from Cons.IH[OF ne] True show ?thesis
      by (simp add: split_on_nonempty)
  next
    case False
    show ?thesis
    proof (cases "split_on c xs")
      case Nil
      with split_on_nonempty[of c xs] show ?thesis by simp
    next
      case (Cons p ps)
      show ?thesis
      proof (cases ps)
        case Nil
        with Cons split_on_single[of c xs p] False show ?thesis by simp
      next
        case (Cons q qs)
        with \<open>split_on c xs = p # ps\<close> False Cons.prems
        have ne: "last (split_on c xs) \<noteq> []" by simp
        from Cons.IH[OF ne] \<open>split_on c xs = p # ps\<close> Cons False show ?thesis by simp
      qed
    qed
  qed
qed

lemma alnum_not_ws: "is_alnum c \<Longrightarrow> \<not> is_ws c"
  by (auto simp: is_alnum_def is_alpha_def is_upper_def is_lower_def is_digit_def is_ws_def)

lemma local_not_ws: "local_char c \<or> local_last c \<Longrightarrow> \<not> is_ws c"
  by (auto simp: local_char_def local_last_def alnum_not_ws) (simp_all add: is_ws_def code_def)

lemma local_ok_hd: "local_ok l \<Longrightarrow> \<not> is_ws (hd l)"
proof -
  assume a: "local_ok l"
  then obtain x xs where l: "l = x # xs" by (cases l) (auto simp: local_ok_def)
  show ?thesis
  proof (cases xs)
    case Nil
    with a l have "local_last x" by (simp add: local_ok_def)
    with l local_not_ws[of x] show ?thesis by simp
  next
    case (Cons y ys)
    with a l have "local_char x" by (simp add: local_ok_def)
    with l show ?thesis by (simp add: local_not_ws)
  qed
qed

lemma domain_ok_last: "domain_ok d \<Longrightarrow> d \<noteq> [] \<and> \<not> is_ws (last d)"
proof -
  assume a: "domain_ok d"
  let ?t = "last (split_on CHR ''.'' d)"
  from a have t: "2 \<le> length ?t" "list_all is_alpha ?t"
    by (simp_all add: domain_ok_def Let_def top_level_def)
  then have ne: "?t \<noteq> []" by auto
  with t(2) have "is_alpha (last ?t)" by (simp add: list_all_iff)
  then have "\<not> is_ws (last ?t)" by (simp add: alnum_not_ws is_alnum_def)
  with last_split_on[OF ne] show ?thesis by simp
qed

text \<open>
  What the e-mail pattern accepts has no white space at either end, so the \<^verbatim>\<open>trim()\<close>
  that follows \<^verbatim>\<open>email()\<close> in the chain never changes an accepted value.
\<close>

lemma emailRegex_trimmed: "emailRegex s \<Longrightarrow> trim s = s"
proof -
  assume a: "emailRegex s"
  then obtain l d where sp: "split_on CHR ''@'' s = [l, d]" and l: "local_ok l" and d: "domain_ok d"
    by (auto simp: emailRegex_def split: list.splits)
  from split_on_pair[OF sp] have s: "s = l @ CHR ''@'' # d" .
  from l have "l \<noteq> []" by (simp add: local_ok_def)
  with s local_ok_hd[OF l] have h: "s \<noteq> []" "\<not> is_ws (hd s)" by simp_all
  from s domain_ok_last[OF d] have e: "\<not> is_ws (last s)" by simp
  from h have 1: "dropWhile is_ws s = s" by (cases s) simp_all
  from h e have 2: "dropWhile is_ws (rev s) = rev s"
    by (cases "rev s") (simp_all add: hd_rev[symmetric])
  from 1 2 show ?thesis by (simp add: trim_def)
qed

lemma optional_string_Aborted: "optional_string zm k cs v = Aborted iss \<Longrightarrow> iss \<noteq> []"
  by (cases v) (auto split: prod.splits)

lemma optional_enum_Aborted: "optional_enum zm k vs v = Aborted iss \<Longrightarrow> iss \<noteq> []"
  by (cases v) (auto split: if_splits)

text \<open>A parse that was aborted has an issue.\<close>

lemma update_object_Aborted: "update_object zm b = Aborted iss \<Longrightarrow> iss \<noteq> []"
  by (auto simp: update_object_def Let_def split: if_splits parsed.splits
      dest: optional_string_Aborted optional_enum_Aborted)

text \<open>
  An address with white space at an end never passes the update schema, whatever else
  the body holds.
\<close>

lemma padded_email_rejected:
  assumes "get_prop b ''email'' = JStr s" and "trim s \<noteq> s"
  shows "\<exists>is. updateUserSchema zm b = Inl is \<and> is \<noteq> []"
proof (cases "update_object zm b")
  case (Aborted iss)
  then have "iss \<noteq> []" by (rule update_object_Aborted)
  with Aborted show ?thesis by (simp add: updateUserSchema_def)
next
  case (Parsed iss upd)
  from assms(2) emailRegex_trimmed[of s] have "\<not> emailRegex s" by blast
  then have "issues_of (optional_string zm ''email'' email_checks (JStr s)) \<noteq> []"
    by (simp add: email_checks_def Let_def split: prod.splits)
  with Parsed assms(1) have "iss \<noteq> []"
    by (auto simp: update_object_def Let_def split: if_splits parsed.splits)
  with Parsed show ?thesis
    by (auto simp: updateUserSchema_def Let_def)
qed

section \<open>The claims\<close>

subsection \<open>Authorization in the update handler\<close>

text \<open>
  C1. On \<^verbatim>\<open>PUT /users/:id\<close> with a validated id and body, an identity that is not an
  administrator gets 403 when its id is not the target id, and gets 403 when the body has
  a role, also on its own record. In each case the store is as it was and the answer does
  not depend on it: the service is not called.
\<close>

theorem updateUserById_forbidden:
  assumes "userIdSchema zm (params req) = Inr i"
    and "updateUserSchema zm (body req) = Inr upd"
    and "user req = Some u"
    and "crole u \<noteq> JStr ''admin''"
  shows "(cid u \<noteq> JNum (of_int i) \<longrightarrow>
            updateUserById zm now req db =
              (json 403 [(''error'', JStr ''Forbidden''),
                         (''message'', JStr ''You can only update your own information'')], db))
       \<and> (cid u = JNum (of_int i) \<and> u_role upd \<noteq> None \<longrightarrow>
            updateUserById zm now req db =
              (json 403 [(''error'', JStr ''Forbidden''),
                         (''message'', JStr ''Only admin users can change user roles'')], db))
       \<and> (u_role upd \<noteq> None \<longrightarrow>
            (\<exists>m. updateUserById zm now req db =
                   (json 403 [(''error'', JStr ''Forbidden''), (''message'', JStr m)], db)))"
  using assms validated_role_truthy[OF assms(2)]
  by (auto simp: updateUserById_def)

text \<open>
  Ann (id 5, role user) updating user 7, and Ann giving herself the role admin.
\<close>

theorem updateUserById_forbidden_witness:
  "userIdSchema example_messages (params (request_by ann_claim ''7'' (JObj [(''name'', JStr ''Xy'')]))) = Inr 7
   \<and> updateUserById example_messages 99 (request_by ann_claim ''7'' (JObj [(''name'', JStr ''Xy'')])) [ann, bob] =
       (json 403 [(''error'', JStr ''Forbidden''),
                  (''message'', JStr ''You can only update your own information'')], [ann, bob])
   \<and> userIdSchema example_messages (params (request_by ann_claim ''5'' (JObj [(''role'', JStr ''admin'')]))) = Inr 5
   \<and> updateUserById example_messages 99 (request_by ann_claim ''5'' (JObj [(''role'', JStr ''admin'')])) [ann, bob] =
       (json 403 [(''error'', JStr ''Forbidden''),
                  (''message'', JStr ''Only admin users can change user roles'')], [ann, bob])"
proof -
  let ?ra = "request_by ann_claim ''7'' (JObj [(''name'', JStr ''Xy'')])"
  let ?rb = "request_by ann_claim ''5'' (JObj [(''role'', JStr ''admin'')])"
  have a1: "userIdSchema example_messages (params ?ra) = Inr 7" by code_simp
  have a2: "updateUserSchema example_messages (body ?ra) =
              Inr \<lparr>u_name = Some ''Xy'', u_email = None, u_role = None\<rparr>" by code_simp
  have b1: "userIdSchema example_messages (params ?rb) = Inr 5" by code_simp
  have b2: "updateUserSchema example_messages (body ?rb) =
              Inr \<lparr>u_name = None, u_email = None, u_role = Some ''admin''\<rparr>" by code_simp
  have ua: "user ?ra = Some ann_claim" and ub: "user ?rb = Some ann_claim"
    by (simp_all add: request_by_def)
  have role: "crole ann_claim \<noteq> JStr ''admin''" by (simp add: ann_claim_def)
  have other: "cid ann_claim \<noteq> JNum (of_int 7)" by (simp add: ann_claim_def)
  have own: "cid ann_claim = JNum (of_int 5)
             \<and> u_role \<lparr>u_name = None, u_email = None, u_role = Some ''admin''\<rparr> \<noteq> None"
    by (simp add: ann_claim_def)
  from updateUserById_forbidden[OF a1 a2 ua role, of 99 "[ann, bob]"] other
  have ca: "updateUserById example_messages 99 ?ra [ann, bob] =
       (json 403 [(''error'', JStr ''Forbidden''),
                  (''message'', JStr ''You can only update your own information'')], [ann, bob])"
    by blast
  from updateUserById_forbidden[OF b1 b2 ub role, of 99 "[ann, bob]"] own
  have cb: "updateUserById example_messages 99 ?rb [ann, bob] =
       (json 403 [(''error'', JStr ''Forbidden''),
                  (''message'', JStr ''Only admin users can change user roles'')], [ann, bob])"
    by blast
  from a1 ca b1 cb show ?thesis by blast
qed

subsection \<open>The authentication step\<close>

text \<open>
  C2, as the code has it. Without a \<^verbatim>\<open>token\<close> cookie, and also with an empty one, the
  answer is 401, \<^verbatim>\<open>Access denied\<close>, \<^verbatim>\<open>No token provided\<close>. With a non-empty cookie that
  fails verification it is 401, \<^verbatim>\<open>Access denied\<close>, \<^verbatim>\<open>Invalid token\<close>. With a cookie that
  verifies, the decoded claim is attached to the request and the pipeline continues.
\<close>

theorem authenticateToken_outcomes:
  "(cookie_token req = None \<or> cookie_token req = Some [] \<longrightarrow>
      authenticateToken verify req =
        json 401 [(''error'', JStr ''Access denied''), (''message'', JStr ''No token provided'')])
 \<and> (\<forall>t. cookie_token req = Some t \<and> t \<noteq> [] \<and> verify t = None \<longrightarrow>
      authenticateToken verify req =
        json 401 [(''error'', JStr ''Access denied''), (''message'', JStr ''Invalid token'')])
 \<and> (\<forall>t d. cookie_token req = Some t \<and> t \<noteq> [] \<and> verify t = Some d \<longrightarrow>
      authenticateToken verify req = Next (req\<lparr>user := Some d\<rparr>))"
  by (auto simp: authenticateToken_def)

text \<open>No cookie, a token the verifier rejects, and Ann's token.\<close>

theorem authenticateToken_outcomes_witness:
  "authenticateToken example_verify request_without_cookie =
     json 401 [(''error'', JStr ''Access denied''), (''message'', JStr ''No token provided'')]
   \<and> authenticateToken example_verify (request_with_token ''forged'') =
     json 401 [(''error'', JStr ''Access denied''), (''message'', JStr ''Invalid token'')]
   \<and> authenticateToken example_verify (request_with_token ''token-of-ann'') =
     Next ((request_with_token ''token-of-ann'')\<lparr>user := Some ann_claim\<rparr>)"
proof -
  have n: "cookie_token request_without_cookie = None"
    by (simp add: cookie_token_def request_without_cookie_def)
  have f: "cookie_token (request_with_token ''forged'') = Some ''forged''
           \<and> ''forged'' \<noteq> [] \<and> example_verify ''forged'' = None"
    by (simp add: cookie_token_def request_with_token_def example_verify_def)
  have a: "cookie_token (request_with_token ''token-of-ann'') = Some ''token-of-ann''
           \<and> ''token-of-ann'' \<noteq> [] \<and> example_verify ''token-of-ann'' = Some ann_claim"
    by (simp add: cookie_token_def request_with_token_def example_verify_def)
  from authenticateToken_outcomes[of request_without_cookie example_verify] n
  have c1: "authenticateToken example_verify request_without_cookie =
     json 401 [(''error'', JStr ''Access denied''), (''message'', JStr ''No token provided'')]"
    by blast
  from authenticateToken_outcomes[of "request_with_token ''forged''" example_verify] f
  have c2: "authenticateToken example_verify (request_with_token ''forged'') =
     json 401 [(''error'', JStr ''Access denied''), (''message'', JStr ''Invalid token'')]"
    by blast
  from authenticateToken_outcomes[of "request_with_token ''token-of-ann''" example_verify] a
  have c3: "authenticateToken example_verify (request_with_token ''token-of-ann'') =
     Next ((request_with_token ''token-of-ann'')\<lparr>user := Some ann_claim\<rparr>)"
    by blast
  from c1 c2 c3 show ?thesis by blast
qed

text \<open>
  C2 as stated fails on an empty cookie: the cookie is present and no verifier accepts
  it, yet the message is \<^verbatim>\<open>No token provided\<close>, not \<^verbatim>\<open>Invalid token\<close>.
\<close>

theorem authenticateToken_empty_cookie:
  "cookie_token (request_with_token '''') = Some ''''
   \<and> no_valid_token '''' = None
   \<and> authenticateToken no_valid_token (request_with_token '''') =
       json 401 [(''error'', JStr ''Access denied''), (''message'', JStr ''No token provided'')]
   \<and> authenticateToken no_valid_token (request_with_token '''') \<noteq>
       json 401 [(''error'', JStr ''Access denied''), (''message'', JStr ''Invalid token'')]"
  by (simp add: authenticateToken_def cookie_token_def request_with_token_def json_def
      no_valid_token_def)

subsection \<open>The authorization step\<close>

text \<open>
  C3. For an authenticated request and a set of allowed roles: when the set is not empty
  and the claim's role is not in it, the answer is 403, \<^verbatim>\<open>Forbidden\<close>,
  \<^verbatim>\<open>Insufficient permissions\<close>; when the set is empty the request passes. On \<^verbatim>\<open>GET /users\<close>
  every identity whose role is not \<^verbatim>\<open>admin\<close> gets that 403.
\<close>

theorem requireRole_outcomes:
  "(user req = Some u \<longrightarrow>
      (roles \<noteq> [] \<and> crole u \<notin> set roles \<longrightarrow>
         requireRole roles req =
           json 403 [(''error'', JStr ''Forbidden''), (''message'', JStr ''Insufficient permissions'')])
    \<and> (roles = [] \<longrightarrow> requireRole roles req = Next req))
 \<and> (cookie_token req = Some t \<and> t \<noteq> [] \<and> verify t = Some u \<and> crole u \<noteq> JStr ''admin'' \<longrightarrow>
      get_users verify req db =
        (json 403 [(''error'', JStr ''Forbidden''), (''message'', JStr ''Insufficient permissions'')],
         db))"
  by (auto simp: requireRole_def get_users_def guarded_def authenticateToken_def json_def)

text \<open>Ann against the role set of the list route, against the empty set, and on the route.\<close>

theorem requireRole_outcomes_witness:
  "requireRole [JStr ''admin''] (request_by ann_claim ''5'' JUndefined) =
     json 403 [(''error'', JStr ''Forbidden''), (''message'', JStr ''Insufficient permissions'')]
   \<and> requireRole [] (request_by ann_claim ''5'' JUndefined) = Next (request_by ann_claim ''5'' JUndefined)
   \<and> get_users example_verify (request_with_token ''token-of-ann'') [ann, bob] =
       (json 403 [(''error'', JStr ''Forbidden''), (''message'', JStr ''Insufficient permissions'')],
        [ann, bob])"
proof -
  let ?r = "request_by ann_claim ''5'' JUndefined"
  have u: "user ?r = Some ann_claim" by (simp add: request_by_def)
  have m: "[JStr ''admin''] \<noteq> [] \<and> crole ann_claim \<notin> set [JStr ''admin'']"
    by (simp add: ann_claim_def)
  have a: "cookie_token (request_with_token ''token-of-ann'') = Some ''token-of-ann''
           \<and> ''token-of-ann'' \<noteq> [] \<and> example_verify ''token-of-ann'' = Some ann_claim
           \<and> crole ann_claim \<noteq> JStr ''admin''"
    by (simp add: cookie_token_def request_with_token_def example_verify_def ann_claim_def)
  from requireRole_outcomes[where req = ?r and u = ann_claim and roles = "[JStr ''admin'']"] u m
  have c1: "requireRole [JStr ''admin''] ?r =
     json 403 [(''error'', JStr ''Forbidden''), (''message'', JStr ''Insufficient permissions'')]"
    by blast
  from requireRole_outcomes[where req = ?r and u = ann_claim and roles = "[]"] u
  have c2: "requireRole [] ?r = Next ?r"
    by blast
  from requireRole_outcomes[where req = "request_with_token ''token-of-ann''" and u = ann_claim
      and t = "''token-of-ann''" and verify = example_verify and db = "[ann, bob]"] a
  have c3: "get_users example_verify (request_with_token ''token-of-ann'') [ann, bob] =
       (json 403 [(''error'', JStr ''Forbidden''), (''message'', JStr ''Insufficient permissions'')],
        [ann, bob])"
    by blast
  from c1 c2 c3 show ?thesis by blast
qed

subsection \<open>Records that do not exist\<close>

text \<open>
  C4, as the code has it. When the id is in the range of the \<^verbatim>\<open>id\<close> column (a 32-bit
  integer) and no row has it, \<open>getUserById\<close> fails with \<^verbatim>\<open>User not found\<close>, and the get,
  update and delete handlers, once the request has passed their validation and
  authorization, answer 404 with error \<^verbatim>\<open>User not found\<close> and message
  \<^verbatim>\<open>The requested user does not exist\<close>, leaving the store as it was. A delete that was
  answered 200 is answered 404 when it is repeated on the resulting store.
\<close>

theorem not_found_is_404:
  "(int4_range i \<and> (\<forall>r\<in>set db. c_id r \<noteq> i) \<longrightarrow>
      getUserById i db = Inl (Error ''User not found''))
 \<and> (int4_range i \<and> (\<forall>r\<in>set db. c_id r \<noteq> i) \<and> userIdSchema zm (params req) = Inr i \<longrightarrow>
      fetchUserById zm req db =
        (json 404 [(''error'', JStr ''User not found''),
                   (''message'', JStr ''The requested user does not exist'')], db))
 \<and> (int4_range i \<and> (\<forall>r\<in>set db. c_id r \<noteq> i) \<and> userIdSchema zm (params req) = Inr i
      \<and> updateUserSchema zm (body req) = Inr upd \<and> user req = Some u
      \<and> (cid u = JNum (of_int i) \<or> crole u = JStr ''admin'')
      \<and> (u_role upd = None \<or> crole u = JStr ''admin'') \<longrightarrow>
      updateUserById zm now req db =
        (json 404 [(''error'', JStr ''User not found''),
                   (''message'', JStr ''The requested user does not exist'')], db))
 \<and> (int4_range i \<and> (\<forall>r\<in>set db. c_id r \<noteq> i) \<and> userIdSchema zm (params req) = Inr i
      \<and> user req = Some u \<and> (cid u = JNum (of_int i) \<or> crole u = JStr ''admin'') \<longrightarrow>
      deleteUserById zm req db =
        (json 404 [(''error'', JStr ''User not found''),
                   (''message'', JStr ''The requested user does not exist'')], db))
 \<and> (deleteUserById zm req db = (json 200 ms, db') \<longrightarrow>
      deleteUserById zm req db' =
        (json 404 [(''error'', JStr ''User not found''),
                   (''message'', JStr ''The requested user does not exist'')], db'))"
proof (intro conjI impI)
  assume "int4_range i \<and> (\<forall>r\<in>set db. c_id r \<noteq> i)"
  then show "getUserById i db = Inl (Error ''User not found'')"
    by (simp add: getUserById_absent)
next
  assume "int4_range i \<and> (\<forall>r\<in>set db. c_id r \<noteq> i) \<and> userIdSchema zm (params req) = Inr i"
  then show "fetchUserById zm req db =
        (json 404 [(''error'', JStr ''User not found''),
                   (''message'', JStr ''The requested user does not exist'')], db)"
    by (simp add: fetchUserById_def getUserById_absent)
next
  assume a: "int4_range i \<and> (\<forall>r\<in>set db. c_id r \<noteq> i) \<and> userIdSchema zm (params req) = Inr i
      \<and> updateUserSchema zm (body req) = Inr upd \<and> user req = Some u
      \<and> (cid u = JNum (of_int i) \<or> crole u = JStr ''admin'')
      \<and> (u_role upd = None \<or> crole u = JStr ''admin'')"
  then have "updateUser i upd now db = Inl (Error ''User not found'')"
    by (simp add: updateUser_def getUserById_absent)
  with a show "updateUserById zm now req db =
        (json 404 [(''error'', JStr ''User not found''),
                   (''message'', JStr ''The requested user does not exist'')], db)"
    by (auto simp: updateUserById_def)
next
  assume a: "int4_range i \<and> (\<forall>r\<in>set db. c_id r \<noteq> i) \<and> userIdSchema zm (params req) = Inr i
      \<and> user req = Some u \<and> (cid u = JNum (of_int i) \<or> crole u = JStr ''admin'')"
  then have "deleteUser i db = Inl (Error ''User not found'')"
    by (simp add: deleteUser_def getUserById_absent)
  with a show "deleteUserById zm req db =
        (json 404 [(''error'', JStr ''User not found''),
                   (''message'', JStr ''The requested user does not exist'')], db)"
    by (auto simp: deleteUserById_def)
next
  assume "deleteUserById zm req db = (json 200 ms, db')"
  from deleteUserById_ok[OF this] obtain j v d where
    j: "userIdSchema zm (params req) = Inr j" and v: "user req = Some v"
    and auth: "\<not> (cid v \<noteq> JNum (of_int j) \<and> crole v \<noteq> JStr ''admin'')"
    and del: "deleteUser j db = Inr (d, db')"
    by blast
  from deleteUser_Inr(2)[OF del] have "\<forall>r\<in>set db'. c_id r \<noteq> j" by simp
  with deleteUser_Inr(3)[OF del] have "deleteUser j db' = Inl (Error ''User not found'')"
    by (simp add: deleteUser_def getUserById_absent)
  with j v auth show "deleteUserById zm req db' =
        (json 404 [(''error'', JStr ''User not found''),
                   (''message'', JStr ''The requested user does not exist'')], db')"
    by (auto simp: deleteUserById_def)
qed

text \<open>
  Nobody has id 9: the service, and the three handlers called by the administrator. And
  Ann deleting her own record twice.
\<close>

theorem not_found_is_404_witness:
  "int4_range 9
   \<and> getUserById 9 [ann, bob] = Inl (Error ''User not found'')
   \<and> fetchUserById example_messages (request_by bob_claim ''9'' JUndefined) [ann, bob] =
       (json 404 [(''error'', JStr ''User not found''),
                  (''message'', JStr ''The requested user does not exist'')], [ann, bob])
   \<and> updateUserById example_messages 99 (request_by bob_claim ''9'' (JObj [(''name'', JStr ''Xy'')])) [ann, bob] =
       (json 404 [(''error'', JStr ''User not found''),
                  (''message'', JStr ''The requested user does not exist'')], [ann, bob])
   \<and> deleteUserById example_messages (request_by bob_claim ''9'' JUndefined) [ann, bob] =
       (json 404 [(''error'', JStr ''User not found''),
                  (''message'', JStr ''The requested user does not exist'')], [ann, bob])
   \<and> deleteUserById example_messages (request_by ann_claim ''5'' JUndefined) [ann, bob] =
       (json 200 [(''message'', JStr ''User deleted successfully''),
                  (''user'', JObj [(''id'', JNum 5), (''email'', JStr ''ann@example.org''),
                                   (''name'', JStr ''Ann''), (''role'', JStr ''user'')])], [bob])
   \<and> deleteUserById example_messages (request_by ann_claim ''5'' JUndefined) [bob] =
       (json 404 [(''error'', JStr ''User not found''),
                  (''message'', JStr ''The requested user does not exist'')], [bob])"
proof -
  let ?get = "request_by bob_claim ''9'' JUndefined"
  let ?put = "request_by bob_claim ''9'' (JObj [(''name'', JStr ''Xy'')])"
  let ?del = "request_by ann_claim ''5'' JUndefined"
  let ?nf = "json 404 [(''error'', JStr ''User not found''),
                       (''message'', JStr ''The requested user does not exist'')]"
  have range: "int4_range 9" by (simp add: int4_range_def)
  have absent: "\<forall>r\<in>set [ann, bob]. c_id r \<noteq> 9" by (simp add: ann_def bob_def)
  have g: "userIdSchema example_messages (params ?get) = Inr 9" by code_simp
  have p: "userIdSchema example_messages (params ?put) = Inr 9" by code_simp
  have pb: "updateUserSchema example_messages (body ?put) =
              Inr \<lparr>u_name = Some ''Xy'', u_email = None, u_role = None\<rparr>" by code_simp
  have ug: "user ?get = Some bob_claim" and up: "user ?put = Some bob_claim"
    by (simp_all add: request_by_def)
  have adm: "crole bob_claim = JStr ''admin''" by (simp add: bob_claim_def)
  have first: "deleteUserById example_messages ?del [ann, bob] =
       (json 200 [(''message'', JStr ''User deleted successfully''),
                  (''user'', JObj [(''id'', JNum 5), (''email'', JStr ''ann@example.org''),
                                   (''name'', JStr ''Ann''), (''role'', JStr ''user'')])], [bob])"
    by code_simp
  note t = not_found_is_404[where db = "[ann, bob]" and i = 9 and zm = example_messages
      and u = bob_claim and now = 99]
  from t range absent have c1: "getUserById 9 [ann, bob] = Inl (Error ''User not found'')"
    by blast
  from t[where req = ?get] range absent g
  have c2: "fetchUserById example_messages ?get [ann, bob] = (?nf, [ann, bob])"
    by blast
  from t[where req = ?put and upd = "\<lparr>u_name = Some ''Xy'', u_email = None, u_role = None\<rparr>"]
    range absent p pb up adm
  have c3: "updateUserById example_messages 99 ?put [ann, bob] = (?nf, [ann, bob])"
    by blast
  from t[where req = ?get] range absent g ug adm
  have c4: "deleteUserById example_messages ?get [ann, bob] = (?nf, [ann, bob])"
    by blast
  from not_found_is_404[where zm = example_messages and req = ?del and db = "[ann, bob]"
      and db' = "[bob]"] first
  have c5: "deleteUserById example_messages ?del [bob] = (?nf, [bob])"
    by blast
  from range c1 c2 c3 c4 first c5 show ?thesis by blast
qed

text \<open>
  C4 as stated fails on an id beyond the column: \<^verbatim>\<open>2147483648\<close> passes the identifier
  schema and no row has it, yet \<open>getUserById\<close> fails with the error of the store, not with
  \<^verbatim>\<open>User not found\<close>, and the get handler passes that error on instead of answering 404.
\<close>

theorem id_out_of_range_is_not_404:
  "userIdSchema example_messages (params (request_by bob_claim ''2147483648'' JUndefined)) =
     Inr 2147483648
   \<and> c_id ann \<noteq> 2147483648 \<and> c_id bob \<noteq> 2147483648
   \<and> getUserById 2147483648 [ann, bob] = Inl StoreFailure
   \<and> getUserById 2147483648 [ann, bob] \<noteq> Inl (Error ''User not found'')
   \<and> fetchUserById example_messages (request_by bob_claim ''2147483648'' JUndefined) [ann, bob] =
       (NextError StoreFailure, [ann, bob])
   \<and> deleteUserById example_messages (request_by bob_claim ''2147483648'' JUndefined) [ann, bob] =
       (NextError StoreFailure, [ann, bob])"
proof -
  have v: "userIdSchema example_messages (params (request_by bob_claim ''2147483648'' JUndefined)) =
     Inr 2147483648"
    by code_simp
  have r: "c_id ann \<noteq> 2147483648 \<and> c_id bob \<noteq> 2147483648" by (simp add: ann_def bob_def)
  have g: "getUserById 2147483648 [ann, bob] = Inl StoreFailure"
    by (simp add: getUserById_out_of_range int4_range_def)
  have u: "user (request_by bob_claim ''2147483648'' JUndefined) = Some bob_claim"
    by (simp add: request_by_def)
  from v g have f: "fetchUserById example_messages
      (request_by bob_claim ''2147483648'' JUndefined) [ann, bob] = (NextError StoreFailure, [ann, bob])"
    by (simp add: fetchUserById_def)
  from v g u have d: "deleteUserById example_messages
      (request_by bob_claim ''2147483648'' JUndefined) [ann, bob] = (NextError StoreFailure, [ann, bob])"
    by (simp add: deleteUserById_def deleteUser_def bob_claim_def)
  from v r g f d show ?thesis by simp
qed

subsection \<open>The e-mail address of an update\<close>

text \<open>
  C5 does not hold of the code. The chain of the \<^verbatim>\<open>email\<close> field is
  \<^verbatim>\<open>.email().max(255).toLowerCase().trim()\<close>: the pattern is tested on the string as it
  came, before it is trimmed, so \<^verbatim>\<open>"  Foo@Bar.COM "\<close> is rejected and the handler answers
  400 without touching the store.
\<close>

theorem update_email_with_spaces_rejected:
  "updateUserSchema zm (JObj [(''email'', JStr ''  Foo@Bar.COM '')]) =
     Inl [\<lparr>path = [''email''], message = zm InvalidEmail\<rparr>]
   \<and> updateUserById zm now (request_by ann_claim ''5'' (JObj [(''email'', JStr ''  Foo@Bar.COM '')])) db =
       (json 400 [(''error'', JStr ''Validation failed''),
                  (''details'', JStr (''Invalid input: '' @ zm InvalidEmail))], db)"
proof -
  have s: "updateUserSchema zm (JObj [(''email'', JStr ''  Foo@Bar.COM '')]) =
     Inl [\<lparr>path = [''email''], message = zm InvalidEmail\<rparr>]"
    by code_simp
  have i: "userIdSchema zm (params (request_by ann_claim ''5'' (JObj [(''email'', JStr ''  Foo@Bar.COM '')]))) = Inr 5"
    by code_simp
  from s i show ?thesis
    by (simp add: updateUserById_def validation_failed_def request_by_def)
qed

text \<open>
  Without the white space the same address is accepted and lower-cased. With white space
  at an end no address is accepted (\<open>padded_email_rejected\<close>): the \<^verbatim>\<open>trim()\<close> of the chain
  has no effect on a value that passes.
\<close>

lemma update_email_lower_cased:
  "updateUserSchema zm (JObj [(''email'', JStr ''Foo@Bar.COM'')]) =
     Inr \<lparr>u_name = None, u_email = Some ''foo@bar.com'', u_role = None\<rparr>"
  by code_simp

subsection \<open>The response to a failed validation\<close>

text \<open>
  C6, as the code has it. When the route parameters fail the identifier schema, each
  handler by id answers 400, and so does the update handler when the body fails the
  update schema. The body of the response has two members, both strings: \<^verbatim>\<open>error\<close>, which is
  \<^verbatim>\<open>Validation failed\<close>, and \<^verbatim>\<open>details\<close>, which is \<^verbatim>\<open>Invalid input: \<close> followed by the messages
  of the issues joined with a comma and a space. The list of issues itself is not in it.
\<close>

theorem validation_failure_response:
  "(userIdSchema zm (params req) = Inl is \<longrightarrow>
      (\<forall>out \<in> {fetchUserById zm req db, updateUserById zm now req db, deleteUserById zm req db}.
         out = (Responded \<lparr>status = 400, payload = JObj
                  [(''error'', JStr ''Validation failed''),
                   (''details'', JStr (''Invalid input: '' @ join '', '' (map message is)))]\<rparr>, db)))
 \<and> (userIdSchema zm (params req) = Inr i \<and> updateUserSchema zm (body req) = Inl is \<longrightarrow>
      updateUserById zm now req db =
        (Responded \<lparr>status = 400, payload = JObj
           [(''error'', JStr ''Validation failed''),
            (''details'', JStr (''Invalid input: '' @ join '', '' (map message is)))]\<rparr>, db))"
  by (simp add: fetchUserById_def updateUserById_def deleteUserById_def validation_failed_def json_def)

text \<open>The id \<^verbatim>\<open>-1.5\<close>, which has two issues, and the empty body on a valid id.\<close>

theorem validation_failure_response_witness:
  "userIdSchema example_messages (params (request_by ann_claim ''-1.5'' JUndefined)) =
     Inl [\<lparr>path = [''id''], message = ''Expected integer''\<rparr>,
          \<lparr>path = [''id''], message = ''User ID must be a positive integer''\<rparr>]
   \<and> deleteUserById example_messages (request_by ann_claim ''-1.5'' JUndefined) [ann, bob] =
       (Responded \<lparr>status = 400, payload = JObj
          [(''error'', JStr ''Validation failed''),
           (''details'', JStr ''Invalid input: Expected integer, User ID must be a positive integer'')]\<rparr>,
        [ann, bob])
   \<and> updateUserSchema example_messages (body (request_by ann_claim ''5'' (JObj []))) =
       Inl [\<lparr>path = [], message = ''At least one field must be provided for update''\<rparr>]
   \<and> updateUserById example_messages 99 (request_by ann_claim ''5'' (JObj [])) [ann, bob] =
       (Responded \<lparr>status = 400, payload = JObj
          [(''error'', JStr ''Validation failed''),
           (''details'', JStr ''Invalid input: At least one field must be provided for update'')]\<rparr>,
        [ann, bob])"
proof -
  let ?bad = "request_by ann_claim ''-1.5'' JUndefined"
  let ?empty = "request_by ann_claim ''5'' (JObj [])"
  have a: "userIdSchema example_messages (params ?bad) =
     Inl [\<lparr>path = [''id''], message = ''Expected integer''\<rparr>,
          \<lparr>path = [''id''], message = ''User ID must be a positive integer''\<rparr>]"
    by code_simp
  have b1: "userIdSchema example_messages (params ?empty) = Inr 5" by code_simp
  have b2: "updateUserSchema example_messages (body ?empty) =
       Inl [\<lparr>path = [], message = ''At least one field must be provided for update''\<rparr>]"
    by code_simp
  from validation_failure_response[where zm = example_messages and req = ?bad
      and db = "[ann, bob]" and now = 99] a
  have "deleteUserById example_messages ?bad [ann, bob] =
       (Responded \<lparr>status = 400, payload = JObj
          [(''error'', JStr ''Validation failed''),
           (''details'', JStr (''Invalid input: '' @ join '', ''
              (map message [\<lparr>path = [''id''], message = ''Expected integer''\<rparr>,
                 \<lparr>path = [''id''], message = ''User ID must be a positive integer''\<rparr>])))]\<rparr>,
        [ann, bob])"
    by blast
  then have c1: "deleteUserById example_messages ?bad [ann, bob] =
       (Responded \<lparr>status = 400, payload = JObj
          [(''error'', JStr ''Validation failed''),
           (''details'', JStr ''Invalid input: Expected integer, User ID must be a positive integer'')]\<rparr>,
        [ann, bob])"
    by simp
  from validation_failure_response[where zm = example_messages and req = ?empty
      and db = "[ann, bob]" and now = 99] b1 b2
  have "updateUserById example_messages 99 ?empty [ann, bob] =
       (Responded \<lparr>status = 400, payload = JObj
          [(''error'', JStr ''Validation failed''),
           (''details'', JStr (''Invalid input: '' @ join '', ''
              (map message [\<lparr>path = [], message = ''At least one field must be provided for update''\<rparr>])))]\<rparr>,
        [ann, bob])"
    by blast
  then have c2: "updateUserById example_messages 99 ?empty [ann, bob] =
       (Responded \<lparr>status = 400, payload = JObj
          [(''error'', JStr ''Validation failed''),
           (''details'', JStr ''Invalid input: At least one field must be provided for update'')]\<rparr>,
        [ann, bob])"
    by simp
  from a c1 b2 c2 show ?thesis by blast
qed

text \<open>
  C6 as stated fails: for the id \<^verbatim>\<open>0\<close> the schema gives one issue for the field \<^verbatim>\<open>id\<close>, and
  the body of the 400 response is the two strings; no member of it is a list.
\<close>

theorem validation_response_has_no_issue_list:
  "userIdSchema example_messages (params (request_by ann_claim ''0'' JUndefined)) =
     Inl [\<lparr>path = [''id''], message = ''User ID must be a positive integer''\<rparr>]
   \<and> fst (fetchUserById example_messages (request_by ann_claim ''0'' JUndefined) [ann, bob]) =
       Responded \<lparr>status = 400, payload = JObj
         [(''error'', JStr ''Validation failed''),
          (''details'', JStr ''Invalid input: User ID must be a positive integer'')]\<rparr>
   \<and> \<not> has_array_member (JObj
         [(''error'', JStr ''Validation failed''),
          (''details'', JStr ''Invalid input: User ID must be a positive integer'')])"
  by (simp add: request_by_def userIdSchema_zero fetchUserById_def validation_failed_def json_def)

subsection \<open>Identifiers that are not positive integers\<close>

text \<open>
  C7. When the \<^verbatim>\<open>id\<close> route parameter is not numeric (it coerces to \<^verbatim>\<open>NaN\<close>), or its number
  is zero, negative, not an integer or infinite, the identifier schema rejects it with at
  least one issue, and the three handlers by id answer 400 and leave the store as it was.
\<close>

theorem userIdSchema_rejects:
  assumes "map_of (params req) ''id'' = Some s"
    and "StringToNumber s = NaN \<or> StringToNumber s = PosInf \<or> StringToNumber s = NegInf
         \<or> (\<exists>v. StringToNumber s = Fin v \<and> (v \<le> 0 \<or> v \<notin> \<int>))"
  shows "\<exists>is. is \<noteq> [] \<and> userIdSchema zm (params req) = Inl is
           \<and> (\<exists>members. fetchUserById zm req db = (json 400 members, db)
                 \<and> updateUserById zm now req db = (json 400 members, db)
                 \<and> deleteUserById zm req db = (json 400 members, db))"
proof -
  have "\<exists>is. is \<noteq> [] \<and> userIdSchema zm (params req) = Inl is"
    using assms by (auto simp: userIdSchema_def Let_def isInteger_Ints)
  then show ?thesis
    by (auto simp: fetchUserById_def updateUserById_def deleteUserById_def validation_failed_def)
qed

text \<open>The parameters \<^verbatim>\<open>abc\<close>, \<^verbatim>\<open>0\<close>, \<^verbatim>\<open>-3\<close> and \<^verbatim>\<open>1.5\<close>.\<close>

theorem userIdSchema_rejects_witness:
  "StringToNumber ''abc'' = NaN \<and> StringToNumber ''0'' = Fin 0
   \<and> StringToNumber ''-3'' = Fin (- 3) \<and> StringToNumber ''1.5'' = Fin (3 / 2)
   \<and> (\<exists>is members. is \<noteq> []
         \<and> userIdSchema example_messages (params (request_by ann_claim ''abc'' JUndefined)) = Inl is
         \<and> fetchUserById example_messages (request_by ann_claim ''abc'' JUndefined) [ann, bob] =
             (json 400 members, [ann, bob]))
   \<and> (\<exists>is members. is \<noteq> []
         \<and> userIdSchema example_messages (params (request_by ann_claim ''0'' JUndefined)) = Inl is
         \<and> updateUserById example_messages 99 (request_by ann_claim ''0'' JUndefined) [ann, bob] =
             (json 400 members, [ann, bob]))
   \<and> (\<exists>is members. is \<noteq> []
         \<and> userIdSchema example_messages (params (request_by ann_claim ''-3'' JUndefined)) = Inl is
         \<and> deleteUserById example_messages (request_by ann_claim ''-3'' JUndefined) [ann, bob] =
             (json 400 members, [ann, bob]))
   \<and> (\<exists>is members. is \<noteq> []
         \<and> userIdSchema example_messages (params (request_by ann_claim ''1.5'' JUndefined)) = Inl is
         \<and> fetchUserById example_messages (request_by ann_claim ''1.5'' JUndefined) [ann, bob] =
             (json 400 members, [ann, bob]))"
proof -
  have n1: "StringToNumber ''abc'' = NaN" by code_simp
  have n2: "StringToNumber ''0'' = Fin 0" by code_simp
  have n3: "StringToNumber ''-3'' = Fin (- 3)" by code_simp
  have n4: "StringToNumber ''1.5'' = Fin (3 / 2)" by code_simp
  have "\<not> isInteger (Fin (3 / 2))" by code_simp
  with isInteger_Ints[of "3 / 2"] have frac: "(3 / 2 :: rat) \<notin> \<int>"
    by blast
  have p: "map_of (params (request_by ann_claim s JUndefined)) ''id'' = Some s" for s
    by (simp add: request_by_def)
  note t = userIdSchema_rejects[OF p, where zm = example_messages and db = "[ann, bob]" and now = 99]
  from t[of "''abc''"] n1 have c1: "\<exists>is members. is \<noteq> []
         \<and> userIdSchema example_messages (params (request_by ann_claim ''abc'' JUndefined)) = Inl is
         \<and> fetchUserById example_messages (request_by ann_claim ''abc'' JUndefined) [ann, bob] =
             (json 400 members, [ann, bob])"
    by blast
  have "(0::rat) \<le> 0" by simp
  with t[of "''0''"] n2 have c2: "\<exists>is members. is \<noteq> []
         \<and> userIdSchema example_messages (params (request_by ann_claim ''0'' JUndefined)) = Inl is
         \<and> updateUserById example_messages 99 (request_by ann_claim ''0'' JUndefined) [ann, bob] =
             (json 400 members, [ann, bob])"
    by blast
  have "(- 3::rat) \<le> 0" by simp
  with t[of "''-3''"] n3 have c3: "\<exists>is members. is \<noteq> []
         \<and> userIdSchema example_messages (params (request_by ann_claim ''-3'' JUndefined)) = Inl is
         \<and> deleteUserById example_messages (request_by ann_claim ''-3'' JUndefined) [ann, bob] =
             (json 400 members, [ann, bob])"
    by blast
  from t[of "''1.5''"] n4 frac have c4: "\<exists>is members. is \<noteq> []
         \<and> userIdSchema example_messages (params (request_by ann_claim ''1.5'' JUndefined)) = Inl is
         \<and> fetchUserById example_messages (request_by ann_claim ''1.5'' JUndefined) [ann, bob] =
             (json 400 members, [ann, bob])"
    by blast
  from n1 n2 n3 n4 c1 c2 c3 c4 show ?thesis by blast
qed

subsection \<open>An update without fields\<close>

text \<open>
  C8. When the body is an object without the keys \<^verbatim>\<open>name\<close>, \<^verbatim>\<open>email\<close> and \<^verbatim>\<open>role\<close>, as the empty
  object is, the update schema rejects it with exactly one issue, whose message is
  \<^verbatim>\<open>At least one field must be provided for update\<close> and whose path is empty: a rule on the
  object, not on one of its fields.
\<close>

theorem updateUserSchema_requires_a_field:
  assumes "''name'' \<notin> set (keys_of (JObj kvs))"
    and "''email'' \<notin> set (keys_of (JObj kvs))"
    and "''role'' \<notin> set (keys_of (JObj kvs))"
  shows "updateUserSchema zm (JObj kvs) =
           Inl [\<lparr>path = [], message = ''At least one field must be provided for update''\<rparr>]"
proof -
  have "map_of kvs ''name'' = None" "map_of kvs ''email'' = None" "map_of kvs ''role'' = None"
    using assms by (simp_all add: map_of_eq_None_iff)
  then show ?thesis
    by (simp add: updateUserSchema_def update_object_def some_field_provided_def
        at_least_one_message_def)
qed

text \<open>The empty object, and an object with a key the schema does not know.\<close>

theorem updateUserSchema_requires_a_field_witness:
  "updateUserSchema example_messages (JObj []) =
     Inl [\<lparr>path = [], message = ''At least one field must be provided for update''\<rparr>]
   \<and> ''name'' \<notin> set (keys_of (JObj [(''password'', JStr ''secret'')]))
   \<and> updateUserSchema example_messages (JObj [(''password'', JStr ''secret'')]) =
     Inl [\<lparr>path = [], message = ''At least one field must be provided for update''\<rparr>]"
proof -
  have e: "k \<notin> set (keys_of (JObj []))" for k by simp
  have o: "''name'' \<notin> set (keys_of (JObj [(''password'', JStr ''secret'')]))"
      "''email'' \<notin> set (keys_of (JObj [(''password'', JStr ''secret'')]))"
      "''role'' \<notin> set (keys_of (JObj [(''password'', JStr ''secret'')]))"
    by simp_all
  have c1: "updateUserSchema example_messages (JObj []) =
     Inl [\<lparr>path = [], message = ''At least one field must be provided for update''\<rparr>]"
    by (rule updateUserSchema_requires_a_field[OF e e e])
  have c2: "updateUserSchema example_messages (JObj [(''password'', JStr ''secret'')]) =
     Inl [\<lparr>path = [], message = ''At least one field must be provided for update''\<rparr>]"
    by (rule updateUserSchema_requires_a_field[OF o])
  from c1 o(1) c2 show ?thesis by blast
qed

subsection \<open>What the record service returns\<close>



subsection \<open>What an update changes\<close>

text \<open>
  C10. When the body passed the update schema and \<open>updateUser\<close> succeeds with its result,
  the store has the same rows in the same places; no row changes its id, its password or
  its creation time; a row with another id is as it was; a row with the id has
  \<^verbatim>\<open>updated_at\<close> set to the current time, and each of \<^verbatim>\<open>name\<close>, \<^verbatim>\<open>email\<close> and \<^verbatim>\<open>role\<close> is the
  value of the update when the update has one and is unchanged when it has none. Keys of
  the body other than these three do not reach the store: every object that agrees with
  the body on the three keys gives the same validated update.
\<close>

theorem updateUser_frame:
  assumes "updateUserSchema zm b = Inr upd"
    and "updateUser i upd now db = Inr (u, db')"
  shows "length db' = length db
       \<and> (\<forall>k<length db.
            c_id (db' ! k) = c_id (db ! k)
          \<and> c_password (db' ! k) = c_password (db ! k)
          \<and> c_created_at (db' ! k) = c_created_at (db ! k)
          \<and> (c_id (db ! k) \<noteq> i \<longrightarrow> db' ! k = db ! k)
          \<and> (c_id (db ! k) = i \<longrightarrow>
                c_updated_at (db' ! k) = now
              \<and> c_name (db' ! k) = (case u_name upd of None \<Rightarrow> c_name (db ! k) | Some n \<Rightarrow> n)
              \<and> c_email (db' ! k) = (case u_email upd of None \<Rightarrow> c_email (db ! k) | Some e \<Rightarrow> e)
              \<and> c_role (db' ! k) = (case u_role upd of None \<Rightarrow> c_role (db ! k) | Some ro \<Rightarrow> ro)))
       \<and> (\<forall>b'. is_object b' \<and> get_prop b' ''name'' = get_prop b ''name''
                \<and> get_prop b' ''email'' = get_prop b ''email''
                \<and> get_prop b' ''role'' = get_prop b ''role''
              \<longrightarrow> updateUserSchema zm b' = Inr upd)"
proof -
  have obj: "is_object b"
    by (rule updateUserSchema_object[OF assms(1)])
  have db': "db' = map (\<lambda>r. if c_id r = i then set_columns upd now r else r) db"
    by (rule updateUser_Inr(2)[OF assms(2)])
  have "length db' = length db" by (simp add: db')
  moreover have "\<forall>k<length db.
            c_id (db' ! k) = c_id (db ! k)
          \<and> c_password (db' ! k) = c_password (db ! k)
          \<and> c_created_at (db' ! k) = c_created_at (db ! k)
          \<and> (c_id (db ! k) \<noteq> i \<longrightarrow> db' ! k = db ! k)
          \<and> (c_id (db ! k) = i \<longrightarrow>
                c_updated_at (db' ! k) = now
              \<and> c_name (db' ! k) = (case u_name upd of None \<Rightarrow> c_name (db ! k) | Some n \<Rightarrow> n)
              \<and> c_email (db' ! k) = (case u_email upd of None \<Rightarrow> c_email (db ! k) | Some e \<Rightarrow> e)
              \<and> c_role (db' ! k) = (case u_role upd of None \<Rightarrow> c_role (db ! k) | Some ro \<Rightarrow> ro))"
    by (simp add: db' set_columns_def)
  moreover have "\<forall>b'. is_object b' \<and> get_prop b' ''name'' = get_prop b ''name''
                \<and> get_prop b' ''email'' = get_prop b ''email''
                \<and> get_prop b' ''role'' = get_prop b ''role''
              \<longrightarrow> updateUserSchema zm b' = Inr upd"
    using updateUserSchema_same_fields[OF obj] assms(1) by simp
  ultimately show ?thesis by blast
qed

text \<open>
  Ann's name is updated at time 99; the body also carries a key \<^verbatim>\<open>password\<close>, which the
  schema drops.
\<close>

theorem updateUser_frame_witness:
  "updateUserSchema example_messages (JObj [(''name'', JStr ''Xy''), (''password'', JStr ''secret'')]) =
     Inr \<lparr>u_name = Some ''Xy'', u_email = None, u_role = None\<rparr>
   \<and> updateUser 5 \<lparr>u_name = Some ''Xy'', u_email = None, u_role = None\<rparr> 99 [ann, bob] =
       Inr (select_fields user_fields (ann\<lparr>c_name := ''Xy'', c_updated_at := 99\<rparr>),
            [ann\<lparr>c_name := ''Xy'', c_updated_at := 99\<rparr>, bob])
   \<and> c_password ([ann\<lparr>c_name := ''Xy'', c_updated_at := 99\<rparr>, bob] ! 0) = c_password ([ann, bob] ! 0)
   \<and> c_email ([ann\<lparr>c_name := ''Xy'', c_updated_at := 99\<rparr>, bob] ! 0) = c_email ([ann, bob] ! 0)
   \<and> [ann\<lparr>c_name := ''Xy'', c_updated_at := 99\<rparr>, bob] ! 1 = [ann, bob] ! 1
   \<and> updateUserSchema example_messages (JObj [(''name'', JStr ''Xy'')]) =
       Inr \<lparr>u_name = Some ''Xy'', u_email = None, u_role = None\<rparr>"
proof -
  let ?b = "JObj [(''name'', JStr ''Xy''), (''password'', JStr ''secret'')]"
  let ?upd = "\<lparr>u_name = Some ''Xy'', u_email = None, u_role = None\<rparr>"
  let ?db' = "[ann\<lparr>c_name := ''Xy'', c_updated_at := 99\<rparr>, bob]"
  have s: "updateUserSchema example_messages ?b = Inr ?upd" by code_simp
  have u: "updateUser 5 ?upd 99 [ann, bob] =
       Inr (select_fields user_fields (ann\<lparr>c_name := ''Xy'', c_updated_at := 99\<rparr>), ?db')"
    by (simp add: updateUser_def getUserById_def int4_range_def email_taken_def set_columns_def ann_def bob_def)
  note t = updateUser_frame[OF s u]
  have k0: "(0::nat) < length [ann, bob]" and k1: "(1::nat) < length [ann, bob]" by simp_all
  have i0: "c_id ([ann, bob] ! 0) = 5" and i1: "c_id ([ann, bob] ! 1) \<noteq> 5"
    by (simp_all add: ann_def bob_def)
  from t k0 have c1: "c_password (?db' ! 0) = c_password ([ann, bob] ! 0)" by blast
  from t k0 i0 have "c_email (?db' ! 0) = (case u_email ?upd of None \<Rightarrow> c_email ([ann, bob] ! 0) | Some e \<Rightarrow> e)"
    by blast
  then have c2: "c_email (?db' ! 0) = c_email ([ann, bob] ! 0)" by simp
  from t k1 i1 have c3: "?db' ! 1 = [ann, bob] ! 1" by blast
  have same: "is_object (JObj [(''name'', JStr ''Xy'')])
      \<and> get_prop (JObj [(''name'', JStr ''Xy'')]) ''name'' = get_prop ?b ''name''
      \<and> get_prop (JObj [(''name'', JStr ''Xy'')]) ''email'' = get_prop ?b ''email''
      \<and> get_prop (JObj [(''name'', JStr ''Xy'')]) ''role'' = get_prop ?b ''role''"
    by simp
  from t same have c4: "updateUserSchema example_messages (JObj [(''name'', JStr ''Xy'')]) = Inr ?upd"
    by blast
  from s u c1 c2 c3 c4 show ?thesis by blast
qed

end
